theory Spec2Isabelle
  imports Complex_Main "HOL-Library.Signed_Division"
begin

section \<open>Double-precision values\<close>

text \<open>
  The program computes with C++ \<^verbatim>\<open>double\<close>.  A \<^verbatim>\<open>double\<close> is modelled as a
  real number or one of the three IEEE-754 special values, so that a division by zero
  and a square root of a negative number are what the machine makes of them
  (an infinity or a NaN) and not what HOL's total functions make of them.
  Arithmetic on finite values is exact: rounding, overflow to infinity and the sign of
  zero are not modelled (a zero divisor counts as \<open>+0\<close>).
\<close>

datatype double = Fin real | PInf | NInf | NaN

text \<open>
  The infinity of the sign of \<open>a\<close>, and NaN for zero: what \<open>a / 0\<close> and
  \<open>a \<cdot> \<infinity>\<close> are.
\<close>

fun inf_sign :: "real \<Rightarrow> double" where
  "inf_sign a = (if a = 0 then NaN else if 0 < a then PInf else NInf)"

text \<open>
  The operators of \<^verbatim>\<open>double\<close>.  A comparison with a NaN is false; \<open>\<infinity> - \<infinity>\<close>,
  \<open>0 \<cdot> \<infinity>\<close>, \<open>0 / 0\<close> and \<open>\<infinity> / \<infinity>\<close> are NaN.
\<close>

instantiation double :: "{plus,minus,uminus,times,divide,abs,ord}"
begin

fun plus_double :: "double \<Rightarrow> double \<Rightarrow> double" where
  "plus_double NaN b = NaN"
| "plus_double a NaN = NaN"
| "plus_double (Fin a) (Fin b) = Fin (a + b)"
| "plus_double (Fin a) PInf = PInf"
| "plus_double (Fin a) NInf = NInf"
| "plus_double PInf (Fin b) = PInf"
| "plus_double PInf PInf = PInf"
| "plus_double PInf NInf = NaN"
| "plus_double NInf (Fin b) = NInf"
| "plus_double NInf PInf = NaN"
| "plus_double NInf NInf = NInf"

fun uminus_double :: "double \<Rightarrow> double" where
  "uminus_double (Fin a) = Fin (- a)"
| "uminus_double PInf = NInf"
| "uminus_double NInf = PInf"
| "uminus_double NaN = NaN"

definition minus_double :: "double \<Rightarrow> double \<Rightarrow> double" where
  "minus_double a b = a + (- b)"

fun times_double :: "double \<Rightarrow> double \<Rightarrow> double" where
  "times_double NaN b = NaN"
| "times_double a NaN = NaN"
| "times_double (Fin a) (Fin b) = Fin (a * b)"
| "times_double (Fin a) PInf = inf_sign a"
| "times_double (Fin a) NInf = inf_sign (- a)"
| "times_double PInf (Fin b) = inf_sign b"
| "times_double NInf (Fin b) = inf_sign (- b)"
| "times_double PInf PInf = PInf"
| "times_double PInf NInf = NInf"
| "times_double NInf PInf = NInf"
| "times_double NInf NInf = PInf"

fun divide_double :: "double \<Rightarrow> double \<Rightarrow> double" where
  "divide_double NaN b = NaN"
| "divide_double a NaN = NaN"
| "divide_double (Fin a) (Fin b) = (if b = 0 then inf_sign a else Fin (a / b))"
| "divide_double (Fin a) PInf = Fin 0"
| "divide_double (Fin a) NInf = Fin 0"
| "divide_double PInf (Fin b) = (if 0 \<le> b then PInf else NInf)"
| "divide_double NInf (Fin b) = (if 0 \<le> b then NInf else PInf)"
| "divide_double PInf PInf = NaN"
| "divide_double PInf NInf = NaN"
| "divide_double NInf PInf = NaN"
| "divide_double NInf NInf = NaN"

fun abs_double :: "double \<Rightarrow> double" where
  "abs_double (Fin a) = Fin \<bar>a\<bar>"
| "abs_double PInf = PInf"
| "abs_double NInf = PInf"
| "abs_double NaN = NaN"

fun less_double :: "double \<Rightarrow> double \<Rightarrow> bool" where
  "less_double (Fin a) (Fin b) = (a < b)"
| "less_double (Fin a) PInf = True"
| "less_double NInf (Fin b) = True"
| "less_double NInf PInf = True"
| "less_double a b = False"

fun less_eq_double :: "double \<Rightarrow> double \<Rightarrow> bool" where
  "less_eq_double (Fin a) (Fin b) = (a \<le> b)"
| "less_eq_double (Fin a) PInf = True"
| "less_eq_double NInf (Fin b) = True"
| "less_eq_double NInf PInf = True"
| "less_eq_double PInf PInf = True"
| "less_eq_double NInf NInf = True"
| "less_eq_double a b = False"

instance ..

end

instantiation double :: inverse
begin

definition inverse_double :: "double \<Rightarrow> double" where
  "inverse_double a = Fin 1 div a"

instance ..

end

text \<open>\<^verbatim>\<open>sqrt\<close>, \<^verbatim>\<open>cos\<close> and \<^verbatim>\<open>sin\<close> of \<^verbatim>\<open><cmath>\<close>.\<close>

fun sqrt_d :: "double \<Rightarrow> double" where
  "sqrt_d (Fin a) = (if a < 0 then NaN else Fin (sqrt a))"
| "sqrt_d PInf = PInf"
| "sqrt_d NInf = NaN"
| "sqrt_d NaN = NaN"

fun cos_d :: "double \<Rightarrow> double" where
  "cos_d (Fin a) = Fin (cos a)"
| "cos_d a = NaN"

fun sin_d :: "double \<Rightarrow> double" where
  "sin_d (Fin a) = Fin (sin a)"
| "sin_d a = NaN"

text \<open>\<^verbatim>\<open>#define PI 3.1415926535897932384626433832795\<close>\<close>

definition PI :: real where
  "PI = 3.1415926535897932384626433832795"

section \<open>Basic data types\<close>

text \<open>
  \<^verbatim>\<open>struct Vec { double x, y, z; ... }\<close>, with the fields written \<open>vx\<close>, \<open>vy\<close>
  and \<open>vz\<close>; \<^verbatim>\<open>Vec()\<close> is the zero vector \<open>Vec0\<close>.  The operators \<^verbatim>\<open>+\<close> and
  \<^verbatim>\<open>-\<close> keep their names, the product with a number is \<open>Vec_mul\<close>, and the member
  functions are \<open>Vec_mult\<close>, \<open>Vec_normalize\<close>, \<open>Vec_dot\<close> and \<open>Vec_cross\<close>.
\<close>

datatype Vec = Vec (vx: double) (vy: double) (vz: double)

definition Vec0 :: Vec where
  "Vec0 = Vec (Fin 0) (Fin 0) (Fin 0)"

instantiation Vec :: "{plus,minus}"
begin

fun plus_Vec :: "Vec \<Rightarrow> Vec \<Rightarrow> Vec" where
  "plus_Vec (Vec x y z) (Vec bx by bz) = Vec (x + bx) (y + by) (z + bz)"

fun minus_Vec :: "Vec \<Rightarrow> Vec \<Rightarrow> Vec" where
  "minus_Vec (Vec x y z) (Vec bx by bz) = Vec (x - bx) (y - by) (z - bz)"

instance ..

end

fun Vec_mul :: "Vec \<Rightarrow> double \<Rightarrow> Vec" where
  "Vec_mul (Vec x y z) b = Vec (x * b) (y * b) (z * b)"

fun Vec_mult :: "Vec \<Rightarrow> Vec \<Rightarrow> Vec" where
  "Vec_mult (Vec x y z) (Vec bx by bz) = Vec (x * bx) (y * by) (z * bz)"

fun Vec_dot :: "Vec \<Rightarrow> Vec \<Rightarrow> double" where
  "Vec_dot (Vec x y z) (Vec bx by bz) = x * bx + y * by + z * bz"

fun Vec_cross :: "Vec \<Rightarrow> Vec \<Rightarrow> Vec" where
  "Vec_cross (Vec x y z) (Vec bx by bz) =
     Vec (y * bz - z * by) (z * bx - x * bz) (x * by - y * bx)"

text \<open>
  \<^verbatim>\<open>normalize\<close> overwrites the vector and returns it; the model returns the new
  value and every caller uses it in place of the old one.
\<close>

fun Vec_normalize :: "Vec \<Rightarrow> Vec" where
  "Vec_normalize (Vec x y z) =
     Vec_mul (Vec x y z) (Fin 1 / sqrt_d (x * x + y * y + z * z))"

text \<open>\<^verbatim>\<open>struct Ray { Vec o, d; }\<close>, with the fields written \<open>ray_o\<close> and \<open>ray_d\<close>.\<close>

datatype Ray = Ray (ray_o: Vec) (ray_d: Vec)

text \<open>
  The two classes derived from \<^verbatim>\<open>BRDF\<close>, each with its one field (\<^verbatim>\<open>kd\<close>,
  \<^verbatim>\<open>ks\<close>); the virtual calls become a case distinction.
\<close>

datatype BRDF = DiffuseBRDF Vec | SpecularBRDF Vec

text \<open>
  \<^verbatim>\<open>Sphere(rad, p, e, brdf)\<close>, in the order of the constructor's arguments; the
  position \<^verbatim>\<open>p\<close> and the emitted radiance \<^verbatim>\<open>e\<close> are written \<open>pos\<close> and \<open>emi\<close>.
\<close>

datatype Sphere = Sphere (rad: double) (pos: Vec) (emi: Vec) (brdf: BRDF)

section \<open>Shapes\<close>

text \<open>
  \<^verbatim>\<open>Sphere::intersect\<close>: the distance to the hit, \<open>0\<close> if there is none.
\<close>

definition Sphere_intersect :: "Sphere \<Rightarrow> Ray \<Rightarrow> double" where
  "Sphere_intersect s r =
     (let op = pos s - ray_o r;
          eps = Fin 0.0001;
          b = Vec_dot op (ray_d r);
          det = b * b - Vec_dot op op + rad s * rad s
      in if det < Fin 0 then Fin 0
         else (let det' = sqrt_d det
               in if eps < b - det' then b - det'
                  else if eps < b + det' then b + det'
                  else Fin 0))"

section \<open>Random numbers\<close>

text \<open>
  \<^verbatim>\<open>rng()\<close> returns the next number of the calling thread's generator.  The
  numbers one thread draws are a sequence \<open>\<xi> :: nat \<Rightarrow> real\<close>; a function that draws
  takes the count \<open>k\<close> of numbers drawn so far and returns the new count, so the draw
  is \<open>Fin (\<xi> k)\<close>.  \<^verbatim>\<open>std::uniform_real_distribution<double>(0.0, 1.0)\<close> draws from
  \<open>[0, 1)\<close>: a theorem that needs the range assumes it.
\<close>

type_synonym rng = "nat \<Rightarrow> real"

section \<open>Sampling functions\<close>

text \<open>The source's outgoing direction \<^verbatim>\<open>o\<close> is written \<open>odir\<close>.\<close>

text \<open>\<^verbatim>\<open>createLocalCoord(n, u, v, w)\<close> returns \<open>(u, v, w)\<close>.\<close>

definition createLocalCoord :: "Vec \<Rightarrow> Vec \<times> Vec \<times> Vec" where
  "createLocalCoord n =
     (let w = n;
          u = Vec_normalize
                (Vec_cross (if Fin 0.1 < \<bar>vx w\<bar> then Vec (Fin 0) (Fin 1) (Fin 0)
                            else Vec (Fin 1) (Fin 0) (Fin 0)) w);
          v = Vec_cross w u
      in (u, v, w))"

text \<open>\<^verbatim>\<open>uniformRandomPSA(n, o, i, pdf)\<close> returns \<open>(i, pdf)\<close> and the new draw count.\<close>

definition uniformRandomPSA :: "rng \<Rightarrow> nat \<Rightarrow> Vec \<Rightarrow> Vec \<Rightarrow> Vec \<times> double \<times> nat" where
  "uniformRandomPSA \<xi> k n odir =
     (let z = sqrt_d (Fin (\<xi> k));
          r = sqrt_d (Fin 1 - z * z);
          phi = Fin 2 * Fin PI * Fin (\<xi> (Suc k));
          x = r * cos_d phi;
          y = r * sin_d phi
      in case createLocalCoord n of (u, v, w) \<Rightarrow>
           (let i = Vec_normalize (Vec_mul u x + Vec_mul v y + Vec_mul w z)
            in (i, Vec_dot n i / Fin PI, Suc (Suc k))))"

section \<open>BRDFs\<close>

fun isSpecular :: "BRDF \<Rightarrow> bool" where
  "isSpecular (DiffuseBRDF kd) = False"
| "isSpecular (SpecularBRDF ks) = True"

definition mirroredDirection :: "Vec \<Rightarrow> Vec \<Rightarrow> Vec" where
  "mirroredDirection n odir = Vec_mul (Vec_mul n (Fin 2)) (Vec_dot n odir) - odir"

text \<open>
  \<^verbatim>\<open>abs\<close> in \<^verbatim>\<open>SpecularBRDF::eval\<close> and \<^verbatim>\<open>isVisibile\<close> is applied to a
  \<^verbatim>\<open>double\<close>; with \<^verbatim>\<open><cmath>\<close> included it is the floating-point overload.
\<close>

fun BRDF_eval :: "BRDF \<Rightarrow> Vec \<Rightarrow> Vec \<Rightarrow> Vec \<Rightarrow> Vec" where
  "BRDF_eval (DiffuseBRDF kd) n odir i = Vec_mul kd (Fin 1 / Fin PI)"
| "BRDF_eval (SpecularBRDF ks) n odir i =
     (let mirrored = Vec_normalize (mirroredDirection n odir);
          i_n = Vec_normalize i
      in if \<bar>vx i_n - vx mirrored\<bar> \<le> Fin 0.0001 \<and>
            \<bar>vy i_n - vy mirrored\<bar> \<le> Fin 0.0001 \<and>
            \<bar>vz i_n - vz mirrored\<bar> \<le> Fin 0.0001
         then Vec_mul ks (Fin 1 / Vec_dot n i)
         else Vec0)"

text \<open>\<^verbatim>\<open>sample(n, o, i, pdf)\<close> returns \<open>(i, pdf)\<close> and the new draw count.\<close>

fun BRDF_sample :: "rng \<Rightarrow> nat \<Rightarrow> BRDF \<Rightarrow> Vec \<Rightarrow> Vec \<Rightarrow> Vec \<times> double \<times> nat" where
  "BRDF_sample \<xi> k (DiffuseBRDF kd) n odir = uniformRandomPSA \<xi> k n odir"
| "BRDF_sample \<xi> k (SpecularBRDF ks) n odir = (mirroredDirection n odir, Fin 1, k)"

section \<open>Scene configuration\<close>

definition leftWall :: BRDF where
  "leftWall = DiffuseBRDF (Vec (Fin 0.75) (Fin 0.25) (Fin 0.25))"

definition rightWall :: BRDF where
  "rightWall = DiffuseBRDF (Vec (Fin 0.25) (Fin 0.25) (Fin 0.75))"

definition otherWall :: BRDF where
  "otherWall = DiffuseBRDF (Vec (Fin 0.75) (Fin 0.75) (Fin 0.75))"

definition blackSurf :: BRDF where
  "blackSurf = DiffuseBRDF (Vec (Fin 0) (Fin 0) (Fin 0))"

definition brightSurf :: BRDF where
  "brightSurf = DiffuseBRDF (Vec (Fin 0.9) (Fin 0.9) (Fin 0.9))"

definition shinySurf :: BRDF where
  "shinySurf = SpecularBRDF (Vec (Fin 0.999) (Fin 0.999) (Fin 0.999))"

definition spheres :: "Sphere list" where
  "spheres =
    [Sphere (Fin 100000) (Vec (Fin (100000 + 1)) (Fin 40.8) (Fin 81.6)) Vec0 leftWall,
     Sphere (Fin 100000) (Vec (Fin (- 100000 + 99)) (Fin 40.8) (Fin 81.6)) Vec0 rightWall,
     Sphere (Fin 100000) (Vec (Fin 50) (Fin 40.8) (Fin 100000)) Vec0 otherWall,
     Sphere (Fin 100000) (Vec (Fin 50) (Fin 100000) (Fin 81.6)) Vec0 otherWall,
     Sphere (Fin 100000) (Vec (Fin 50) (Fin (- 100000 + 81.6)) (Fin 81.6)) Vec0 otherWall,
     Sphere (Fin 16.5) (Vec (Fin 27) (Fin 16.5) (Fin 47)) Vec0 brightSurf,
     Sphere (Fin 16.5) (Vec (Fin 73) (Fin 16.5) (Fin 78)) Vec0 shinySurf,
     Sphere (Fin 5) (Vec (Fin 50) (Fin 70) (Fin 81.6)) (Vec (Fin 50) (Fin 50) (Fin 50)) blackSurf]"


section \<open>Global functions\<close>

text \<open>
  The loop of \<^verbatim>\<open>intersect\<close>, \<^verbatim>\<open>for (int i = int(n); i--;)\<close>: the body runs for
  \<open>i = n - 1\<close> down to \<open>0\<close>.  A \<^verbatim>\<open>double\<close> used as a condition is true when it
  is not zero.
\<close>

fun intersect_loop :: "Ray \<Rightarrow> nat \<Rightarrow> double \<times> nat \<Rightarrow> double \<times> nat" where
  "intersect_loop r 0 (t, hid) = (t, hid)"
| "intersect_loop r (Suc i) (t, hid) =
     (let d = Sphere_intersect (spheres ! i) r
      in intersect_loop r i (if d \<noteq> Fin 0 \<and> d < t then (d, i) else (t, hid)))"

text \<open>
  \<^verbatim>\<open>intersect(r, t, id)\<close> returns its result and the two references; \<open>id0\<close> is
  the value \<^verbatim>\<open>id\<close> has at the call (both callers pass \<open>0\<close>).  The index
  \<^verbatim>\<open>id\<close> is written \<open>hid\<close>.
\<close>

definition intersect :: "Ray \<Rightarrow> nat \<Rightarrow> bool \<times> double \<times> nat" where
  "intersect r id0 =
     (let inf = Fin 100000000000000000000
      in case intersect_loop r (length spheres) (inf, id0) of
           (t, hid) \<Rightarrow> (t < inf, t, hid))"

text \<open>
  \<^verbatim>\<open>luminaireSample(source, surfacePoint, n, pdf)\<close> returns
  \<open>(surfacePoint, n, pdf)\<close> and the new draw count.
\<close>

definition luminaireSample :: "rng \<Rightarrow> nat \<Rightarrow> Sphere \<Rightarrow> Vec \<times> Vec \<times> double \<times> nat" where
  "luminaireSample \<xi> k source =
     (let r = rad source;
          e1 = Fin (\<xi> k);
          e2 = Fin (\<xi> (Suc k));
          z = Fin 2 * e1 - Fin 1;
          x = sqrt_d (Fin 1 - z * z) * cos_d (Fin 2 * Fin PI * e2);
          y = sqrt_d (Fin 1 - z * z) * sin_d (Fin 2 * Fin PI * e2)
      in (pos source + Vec_mul (Vec x y z) r, Vec x y z,
          Fin 1 / (Fin 4 * Fin PI * (r * r)), Suc (Suc k)))"

definition isVisibile :: "Vec \<Rightarrow> Vec \<Rightarrow> double" where
  "isVisibile x y =
     (let r = Ray x (Vec_normalize (y - x))
      in case intersect r 0 of
           (hit, t, hid) \<Rightarrow>
             (let ip = ray_o r + Vec_mul (ray_d r) t
              in if \<bar>vx ip - vx y\<bar> \<le> Fin 0.0001 \<and>
                    \<bar>vy ip - vy y\<bar> \<le> Fin 0.0001 \<and>
                    \<bar>vz ip - vz y\<bar> \<le> Fin 0.0001
                 then Fin 1 else Fin 0))"

section \<open>The radiance estimator\<close>

text \<open>\<^verbatim>\<open>directRadiance(obj, r, n)\<close> returns the radiance and the new draw count.\<close>

definition directRadiance :: "rng \<Rightarrow> nat \<Rightarrow> Sphere \<Rightarrow> Ray \<Rightarrow> Vec \<Rightarrow> Vec \<times> nat" where
  "directRadiance \<xi> k obj r n =
     (if \<not> isSpecular (brdf obj) then
        (case luminaireSample \<xi> k (spheres ! 7) of
           (y1, sourceNormal, pdf1, k') \<Rightarrow>
             (let o1 = Vec_normalize (y1 - ray_o r);
                  r2 = Vec_dot (ray_o r - y1) (ray_o r - y1)
              in (Vec_mul
                    (Vec_mul (Vec_mult (emi (spheres ! 7)) (BRDF_eval (brdf obj) n o1 (ray_d r)))
                       (isVisibile (ray_o r) y1))
                    (Vec_dot n o1 * Vec_dot sourceNormal (Vec_mul o1 (Fin (- 1))) / (r2 * pdf1)),
                  k')))
      else (Vec0, k))"

text \<open>
  \<^verbatim>\<open>receivedRadiance(r, depth, flag)\<close>.  The recursion has no bound in the source: the
  model counts the nested calls down from \<open>fuel\<close> and returns \<open>None\<close> when it would
  need more.  \<^verbatim>\<open>Ray y(x, i.normalize())\<close> overwrites \<open>i\<close>, so the normalized
  vector is the one \<^verbatim>\<open>eval\<close> and \<^verbatim>\<open>n.dot(i)\<close> see.  The depth is an
  \<^verbatim>\<open>int\<close> that grows by one with each nested call; no recursion the machine can
  hold reaches its largest value, so it is an unbounded integer here.
\<close>

fun receivedRadiance :: "rng \<Rightarrow> nat \<Rightarrow> nat \<Rightarrow> Ray \<Rightarrow> int \<Rightarrow> bool \<Rightarrow> (Vec \<times> nat) option" where
  "receivedRadiance \<xi> 0 k r depth flag = None"
| "receivedRadiance \<xi> (Suc fuel) k r depth flag =
     (case intersect r 0 of
        (hit, t, hid) \<Rightarrow>
          if \<not> hit then Some (Vec0, k)
          else
            (let obj = spheres ! hid;
                 x = ray_o r + Vec_mul (ray_d r) t;
                 odir = Vec_normalize (Vec0 - ray_d r);
                 n0 = Vec_normalize (x - pos obj);
                 n = (if Vec_dot n0 odir < Fin 0 then Vec_mul n0 (Fin (- 1)) else n0)
             in case (if \<not> isSpecular (brdf obj) then directRadiance \<xi> k obj (Ray x odir) n
                      else (Vec0, k)) of
                  (totalRad, k1) \<Rightarrow>
                    (let p = (if 5 \<le> depth then Fin 0.9 else Fin 1)
                     in if Fin (\<xi> k1) < p then
                          (case BRDF_sample \<xi> (Suc k1) (brdf obj) n odir of
                             (i0, pdf, k2) \<Rightarrow>
                               (let i = Vec_normalize i0
                                in case receivedRadiance \<xi> fuel k2 (Ray x i) (depth + 1)
                                          (isSpecular (brdf obj)) of
                                     None \<Rightarrow> None
                                   | Some (rad', k3) \<Rightarrow>
                                       (let totalRad' = totalRad +
                                              Vec_mul (Vec_mult rad' (BRDF_eval (brdf obj) n odir i))
                                                (Vec_dot n i / (pdf * p))
                                        in Some (if flag then emi obj + totalRad' else totalRad',
                                                 k3))))
                        else Some (if flag then emi obj + totalRad else totalRad, Suc k1))))"

section \<open>Main function\<close>

text \<open>
  \<^verbatim>\<open>atoi\<close> of the C library reads white space, an optional sign, then decimal
  digits up to the first other character, \<open>0\<close> when there is no digit:
  \<open>atoi_value\<close> is the number written.  The library computes it as
  \<^verbatim>\<open>(int) strtol(s, NULL, 10)\<close>: \<^verbatim>\<open>strtol\<close> returns a \<^verbatim>\<open>long\<close> of 64 bits and
  replaces a number outside it by the nearest bound, and the conversion \<open>to_int\<close> to
  the \<^verbatim>\<open>int\<close> of 32 bits keeps the low 32 bits (two's complement).
\<close>

fun atoi_digits :: "int \<Rightarrow> string \<Rightarrow> int" where
  "atoi_digits acc [] = acc"
| "atoi_digits acc (c # cs) =
     (if 48 \<le> (of_char c :: nat) \<and> (of_char c :: nat) \<le> 57
      then atoi_digits (10 * acc + (int (of_char c) - 48)) cs
      else acc)"

fun atoi_value :: "string \<Rightarrow> int" where
  "atoi_value [] = 0"
| "atoi_value (c # cs) =
     (if (of_char c :: nat) = 32 \<or> (9 \<le> (of_char c :: nat) \<and> (of_char c :: nat) \<le> 13)
      then atoi_value cs
      else if c = CHR ''-'' then - atoi_digits 0 cs
      else if c = CHR ''+'' then atoi_digits 0 cs
      else atoi_digits 0 (c # cs))"

definition strtol :: "string \<Rightarrow> int" where
  "strtol s = max (- (2 ^ 63)) (min (2 ^ 63 - 1) (atoi_value s))"

definition to_int :: "int \<Rightarrow> int" where
  "to_int v = (v + 2 ^ 31) mod 2 ^ 32 - 2 ^ 31"

definition atoi :: "string \<Rightarrow> int" where
  "atoi s = to_int (strtol s)"

text \<open>
  \<^verbatim>\<open>samps = argc == 2 ? atoi(argv[1]) / 4 : 1\<close>, with \<open>argv\<close> the list of all
  \<open>argc\<close> arguments (the program's name first).  Division of \<^verbatim>\<open>int\<close> truncates
  toward zero.
\<close>

definition samps :: "string list \<Rightarrow> int" where
  "samps argv = (if length argv = 2 then atoi (argv ! 1) sdiv 4 else 1)"


section \<open>Auxiliary definitions\<close>

text \<open>
  The value of \<^verbatim>\<open>Sphere::intersect\<close> on finite numbers, from \<open>b\<close> and the
  discriminant \<open>det\<close>.
\<close>

definition isect :: "real \<Rightarrow> real \<Rightarrow> real" where
  "isect b det =
     (if det < 0 then 0
      else if 0.0001 < b - sqrt det then b - sqrt det
      else if 0.0001 < b + sqrt det then b + sqrt det
      else 0)"


text \<open>
  The quantities \<^verbatim>\<open>receivedRadiance\<close> computes at a hit of distance \<open>t\<close> on the
  sphere \<open>obj\<close>: the intersection point \<^verbatim>\<open>x\<close>, the outgoing direction
  \<^verbatim>\<open>o\<close>, the normal \<^verbatim>\<open>n\<close> turned to the side of \<^verbatim>\<open>o\<close>, and the direct
  radiance with the draw count after it.
\<close>

definition hit_x :: "Ray \<Rightarrow> double \<Rightarrow> Vec" where
  "hit_x r t = ray_o r + Vec_mul (ray_d r) t"

definition hit_o :: "Ray \<Rightarrow> Vec" where
  "hit_o r = Vec_normalize (Vec0 - ray_d r)"

definition hit_n :: "Ray \<Rightarrow> double \<Rightarrow> Sphere \<Rightarrow> Vec" where
  "hit_n r t obj =
     (let n0 = Vec_normalize (hit_x r t - pos obj)
      in if Vec_dot n0 (hit_o r) < Fin 0 then Vec_mul n0 (Fin (- 1)) else n0)"

definition hit_direct :: "rng \<Rightarrow> nat \<Rightarrow> Ray \<Rightarrow> double \<Rightarrow> Sphere \<Rightarrow> Vec \<times> nat" where
  "hit_direct \<xi> k r t obj =
     (if \<not> isSpecular (brdf obj)
      then directRadiance \<xi> k obj (Ray (hit_x r t) (hit_o r)) (hit_n r t obj)
      else (Vec0, k))"

text \<open>
  Concrete inputs.  \<open>floorRay\<close> starts inside the box and goes straight down to the
  floor (sphere \<open>3\<close>), which it meets at \<open>(50, 0, 81.6)\<close>.
\<close>

definition floorRay :: Ray where
  "floorRay = Ray (Vec (Fin 50) (Fin 52) (Fin 81.6)) (Vec (Fin 0) (Fin (- 1)) (Fin 0))"


text \<open>Five draws of \<open>0\<close>, then \<open>0.95\<close> for ever.\<close>

definition xi_tangent :: rng where
  "xi_tangent k = (if k < 5 then 0 else 19 / 20)"

definition xi_light :: rng where
  "xi_light k = (if k = 0 then 1 / 2 else 0)"

definition xi_diffuse :: rng where
  "xi_diffuse k = (if k = 0 then 16 / 25 else 0)"







text \<open>
  A number is \<open>finite_d\<close> when it is neither an infinity nor a NaN.  A vector is
  \<open>finite_Vec\<close> when its components are finite, and \<open>nonneg\<close> when they are finite
  and not negative.
\<close>

fun finite_d :: "double \<Rightarrow> bool" where
  "finite_d (Fin a) = True"
| "finite_d a = False"

fun finite_Vec :: "Vec \<Rightarrow> bool" where
  "finite_Vec (Vec (Fin a) (Fin b) (Fin c)) = True"
| "finite_Vec v = False"




section \<open>Arithmetic on finite values\<close>

text \<open>
  Operations on finite values are those of the real numbers; a sum, a product or a
  scalar product is finite only if its arguments are.
\<close>

lemma minus_Fin [simp]: "Fin a - Fin b = Fin (a - b)"
  by (simp add: minus_double_def)

lemma PI_pos: "0 < PI"
  by (simp add: PI_def)

lemma plus_eq_Fin:
  fixes a b :: double
  assumes "a + b = Fin c"
  shows "\<exists>x y. a = Fin x \<and> b = Fin y"
  using assms by (cases a; cases b) simp_all

lemma times_eq_Fin:
  fixes a b :: double
  assumes "a * b = Fin c"
  shows "\<exists>x y. a = Fin x \<and> b = Fin y"
  using assms by (cases a; cases b) (simp_all split: if_splits)

lemma Vec_dot_eq_Fin:
  assumes "Vec_dot n i = Fin c"
  shows "\<exists>a b c. i = Vec (Fin a) (Fin b) (Fin c)"
proof (cases n)
  case n: (Vec nx ny nz)
  show ?thesis
  proof (cases i)
    case i: (Vec ix iy iz)
    from assms n i have s: "nx * ix + ny * iy + nz * iz = Fin c" by simp
    from plus_eq_Fin [OF s] obtain u v where
      u: "nx * ix + ny * iy = Fin u" and v: "nz * iz = Fin v"
      by blast
    from plus_eq_Fin [OF u] obtain p q where p: "nx * ix = Fin p" and q: "ny * iy = Fin q"
      by blast
    from times_eq_Fin [OF p] times_eq_Fin [OF q] times_eq_Fin [OF v] i
    show ?thesis by auto
  qed
qed

text \<open>A normalized vector is finite only if it comes from a finite vector that is not zero.\<close>

lemma Vec_normalize_Fin:
  assumes "Vec_normalize w = Vec (Fin a) (Fin b) (Fin c)"
  shows "\<exists>x y z. w = Vec (Fin x) (Fin y) (Fin z) \<and> 0 < x * x + y * y + z * z \<and>
           a = x / sqrt (x * x + y * y + z * z) \<and>
           b = y / sqrt (x * x + y * y + z * z) \<and>
           c = z / sqrt (x * x + y * y + z * z)"
proof (cases w)
  case w: (Vec wx wy wz)
  define f where "f = Fin 1 / sqrt_d (wx * wx + wy * wy + wz * wz)"
  from assms w have e: "wx * f = Fin a" "wy * f = Fin b" "wz * f = Fin c"
    by (simp_all add: f_def)
  from times_eq_Fin [OF e(1)] times_eq_Fin [OF e(2)] times_eq_Fin [OF e(3)]
  obtain x y z g where x: "wx = Fin x" and y: "wy = Fin y" and z: "wz = Fin z" and g: "f = Fin g"
    by auto
  have nn: "0 \<le> x * x + y * y + z * z" by simp
  have "x * x + y * y + z * z \<noteq> 0"
  proof
    assume "x * x + y * y + z * z = 0"
    then have "f = PInf" by (simp add: f_def x y z)
    with g show False by simp
  qed
  with nn have pos: "0 < x * x + y * y + z * z" by linarith
  then have "f = Fin (1 / sqrt (x * x + y * y + z * z))"
    by (simp add: f_def x y z)
  with e x y z pos w show ?thesis by simp
qed

lemma Vec_normalize_idem:
  assumes "Vec_normalize w = Vec (Fin a) (Fin b) (Fin c)"
  shows "Vec_normalize (Vec_normalize w) = Vec_normalize w"
proof -
  from Vec_normalize_Fin [OF assms] obtain x y z where
    pos: "0 < x * x + y * y + z * z" and
    a: "a = x / sqrt (x * x + y * y + z * z)" and
    b: "b = y / sqrt (x * x + y * y + z * z)" and
    c: "c = z / sqrt (x * x + y * y + z * z)" by blast
  define q where "q = x * x + y * y + z * z"
  have q: "0 < q" using pos by (simp add: q_def)
  have "a * a + b * b + c * c = x * x / q + y * y / q + z * z / q"
    unfolding a b c q_def [symmetric] using q by simp
  also have "\<dots> = (x * x + y * y + z * z) / q"
    by (simp add: add_divide_distrib)
  also have "\<dots> = 1" using q by (simp add: q_def)
  finally have 1: "a * a + b * b + c * c = 1" .
  show ?thesis unfolding assms by (simp add: 1)
qed

lemma sqrt_25: "sqrt 25 = 5"
  by (rule real_sqrt_unique) simp_all

lemma sqrt_16_25: "sqrt (16 / 25) = 4 / 5"
  by (rule real_sqrt_unique) (simp_all add: power2_eq_square)

lemma sqrt_9_25: "sqrt (9 / 25) = 3 / 5"
  by (rule real_sqrt_unique) (simp_all add: power2_eq_square)

section \<open>The ray-sphere intersection\<close>

text \<open>The roots of \<open>t\<^sup>2 - 2 b t + (b\<^sup>2 - det) = 0\<close>.\<close>

lemma root_iff:
  fixes b det t :: real
  assumes "0 \<le> det"
  shows "(t * t - 2 * b * t + (b * b - det) = 0) = (t = b - sqrt det \<or> t = b + sqrt det)"
proof -
  have "(t * t - 2 * b * t + (b * b - det) = 0) = ((t - b)\<^sup>2 = (sqrt det)\<^sup>2)"
    using assms by (simp add: power2_eq_square algebra_simps)
  also have "\<dots> = (t - b = sqrt det \<or> t - b = - sqrt det)"
    by (rule power2_eq_iff)
  also have "\<dots> = (t = b - sqrt det \<or> t = b + sqrt det)" by auto
  finally show ?thesis .
qed

lemma no_root:
  fixes b det t :: real
  assumes "det < 0"
  shows "t * t - 2 * b * t + (b * b - det) \<noteq> 0"
proof -
  have "t * t - 2 * b * t + (b * b - det) = (t - b)\<^sup>2 - det"
    by (simp add: power2_eq_square algebra_simps)
  moreover have "0 \<le> (t - b)\<^sup>2" by simp
  ultimately show ?thesis using assms by linarith
qed

lemma Sphere_intersect_Fin:
  "Sphere_intersect (Sphere (Fin R) (Vec (Fin px) (Fin py) (Fin pz)) e m)
      (Ray (Vec (Fin ox) (Fin oy) (Fin oz)) (Vec (Fin dx) (Fin dy) (Fin dz))) =
   Fin (isect ((px - ox) * dx + (py - oy) * dy + (pz - oz) * dz)
          (((px - ox) * dx + (py - oy) * dy + (pz - oz) * dz) *
           ((px - ox) * dx + (py - oy) * dy + (pz - oz) * dz) -
           ((px - ox) * (px - ox) + (py - oy) * (py - oy) + (pz - oz) * (pz - oz)) + R * R))"
  unfolding Sphere_intersect_def isect_def Let_def by simp

lemma isect_least_root:
  fixes b c :: real
  defines "det \<equiv> b * b - c"
  shows "(det < 0 \<longrightarrow> isect b det = 0) \<and>
     (0 \<le> det \<and> 0.0001 < b - sqrt det \<longrightarrow> isect b det = b - sqrt det) \<and>
     (0 \<le> det \<and> \<not> 0.0001 < b - sqrt det \<and> 0.0001 < b + sqrt det \<longrightarrow>
        isect b det = b + sqrt det) \<and>
     (0 \<le> det \<and> \<not> 0.0001 < b + sqrt det \<longrightarrow> isect b det = 0) \<and>
     ((\<exists>u. 0.0001 < u \<and> u * u - 2 * b * u + c = 0) \<longrightarrow>
        0.0001 < isect b det \<and> isect b det * isect b det - 2 * b * isect b det + c = 0 \<and>
        (\<forall>u. 0.0001 < u \<and> u * u - 2 * b * u + c = 0 \<longrightarrow> isect b det \<le> u)) \<and>
     (\<not> (\<exists>u. 0.0001 < u \<and> u * u - 2 * b * u + c = 0) \<longrightarrow> isect b det = 0)"
proof -
  have c: "c = b * b - det" by (simp add: det_def)
  show ?thesis
  proof (cases "det < 0")
    case True
    then have "u * u - 2 * b * u + c \<noteq> 0" for u unfolding c by (rule no_root)
    with True show ?thesis by (simp add: isect_def)
  next
    case False
    then have nn: "0 \<le> det" by simp
    define s where "s = sqrt det"
    have s: "0 \<le> s" using nn by (simp add: s_def)
    have r: "(u * u - 2 * b * u + c = 0) = (u = b - s \<or> u = b + s)" for u
      unfolding c s_def using nn by (rule root_iff)
    have i: "isect b det = (if 0.0001 < b - s then b - s else if 0.0001 < b + s then b + s else 0)"
      using False by (simp add: isect_def s_def)
    consider (near) "0.0001 < b - s" | (far) "\<not> 0.0001 < b - s" "0.0001 < b + s"
      | (none) "\<not> 0.0001 < b - s" "\<not> 0.0001 < b + s"
      by blast
    then show ?thesis
    proof cases
      case near
      then have "\<exists>u. 0.0001 < u \<and> (u = b - s \<or> u = b + s)" by blast
      with near s False show ?thesis
        unfolding r i s_def [symmetric] by auto
    next
      case far
      then have "\<exists>u. 0.0001 < u \<and> (u = b - s \<or> u = b + s)" by blast
      with far s False show ?thesis
        unfolding r i s_def [symmetric] by auto
    next
      case none
      then have "\<not> (\<exists>u. 0.0001 < u \<and> (u = b - s \<or> u = b + s))" by auto
      with none s False show ?thesis
        unfolding r i s_def [symmetric] by auto
    qed
  qed
qed

lemma on_sphere_iff:
  fixes R px py pz ox oy oz dx dy dz b c u :: real
  assumes b: "b = (px - ox) * dx + (py - oy) * dy + (pz - oz) * dz"
      and c: "c = (px - ox) * (px - ox) + (py - oy) * (py - oy) + (pz - oz) * (pz - oz) - R * R"
      and unit: "dx * dx + dy * dy + dz * dz = 1"
  shows "((ox + u * dx - px)\<^sup>2 + (oy + u * dy - py)\<^sup>2 + (oz + u * dz - pz)\<^sup>2 = R\<^sup>2) =
         (u * u - 2 * b * u + c = 0)"
proof -
  have "(ox + u * dx - px)\<^sup>2 + (oy + u * dy - py)\<^sup>2 + (oz + u * dz - pz)\<^sup>2 - R\<^sup>2 =
        u * u * (dx * dx + dy * dy + dz * dz) - 2 * b * u + c"
    unfolding b c by (simp add: power2_eq_square algebra_simps)
  also have "\<dots> = u * u - 2 * b * u + c" by (simp add: unit)
  finally show ?thesis by auto
qed

text \<open>
  C5.  For a sphere and a ray of finite numbers (arithmetic exact), with
  \<open>b = (p - o)\<cdot>d\<close> and \<open>c = (p - o)\<cdot>(p - o) - rad\<^sup>2\<close>, the quadratic the code solves is
  \<open>u\<^sup>2 - 2 b u + c = 0\<close>, with the roots \<open>b - \<surd>det\<close> and \<open>b + \<surd>det\<close> for
  \<open>det = b\<^sup>2 - c\<close>; for a direction of length one its roots are the distances at which
  the ray meets the sphere.  \<^verbatim>\<open>Sphere::intersect\<close> returns a finite number \<open>t\<close>:
  the near root if it is above \<open>10\<^sup>-\<^sup>4\<close>, otherwise the far root if that is above
  \<open>10\<^sup>-\<^sup>4\<close>, and \<open>0\<close> when the discriminant is negative or neither root qualifies.
  So \<open>t\<close> is the least root above \<open>10\<^sup>-\<^sup>4\<close> when there is one, and \<open>0\<close> (the miss, an
  ordinary return value) exactly when there is none.
\<close>

theorem Sphere_intersect_smallest_root:
  fixes R px py pz ox oy oz dx dy dz b c :: real
  assumes s: "s = Sphere (Fin R) (Vec (Fin px) (Fin py) (Fin pz)) e m"
      and r: "r = Ray (Vec (Fin ox) (Fin oy) (Fin oz)) (Vec (Fin dx) (Fin dy) (Fin dz))"
      and b: "b = (px - ox) * dx + (py - oy) * dy + (pz - oz) * dz"
      and c: "c = (px - ox) * (px - ox) + (py - oy) * (py - oy) + (pz - oz) * (pz - oz) - R * R"
  shows "\<exists>t. Sphere_intersect s r = Fin t \<and>
     (b * b - c < 0 \<longrightarrow> t = 0) \<and>
     (0 \<le> b * b - c \<and> 0.0001 < b - sqrt (b * b - c) \<longrightarrow> t = b - sqrt (b * b - c)) \<and>
     (0 \<le> b * b - c \<and> \<not> 0.0001 < b - sqrt (b * b - c) \<and> 0.0001 < b + sqrt (b * b - c) \<longrightarrow>
        t = b + sqrt (b * b - c)) \<and>
     (0 \<le> b * b - c \<and> \<not> 0.0001 < b + sqrt (b * b - c) \<longrightarrow> t = 0) \<and>
     ((\<exists>u. 0.0001 < u \<and> u * u - 2 * b * u + c = 0) \<longrightarrow>
        0.0001 < t \<and> t * t - 2 * b * t + c = 0 \<and>
        (\<forall>u. 0.0001 < u \<and> u * u - 2 * b * u + c = 0 \<longrightarrow> t \<le> u)) \<and>
     (\<not> (\<exists>u. 0.0001 < u \<and> u * u - 2 * b * u + c = 0) \<longrightarrow> t = 0) \<and>
     (dx * dx + dy * dy + dz * dz = 1 \<longrightarrow>
        (\<forall>u. (u * u - 2 * b * u + c = 0) =
           ((ox + u * dx - px)\<^sup>2 + (oy + u * dy - py)\<^sup>2 + (oz + u * dz - pz)\<^sup>2 = R\<^sup>2)))"
proof -
  have "Sphere_intersect s r = Fin (isect b (b * b - c))"
    unfolding s r Sphere_intersect_Fin b c by (simp add: algebra_simps)
  moreover have "(u * u - 2 * b * u + c = 0) =
      ((ox + u * dx - px)\<^sup>2 + (oy + u * dy - py)\<^sup>2 + (oz + u * dz - pz)\<^sup>2 = R\<^sup>2)"
    if "dx * dx + dy * dy + dz * dz = 1" for u
    using on_sphere_iff [OF b c that, of u] by simp
  ultimately show ?thesis using isect_least_root [of b c] by blast
qed

theorem Sphere_intersect_smallest_root_witness:
  "Sphere_intersect (Sphere (Fin 5) (Vec (Fin 50) (Fin 70) (Fin 81.6)) Vec0 blackSurf)
     (Ray (Vec (Fin 50) (Fin 52) (Fin 81.6)) (Vec (Fin 0) (Fin 1) (Fin 0))) = Fin 13 \<and>
   (13 :: real) = 18 - sqrt (18 * 18 - 299) \<and> (13 :: real) * 13 - 2 * 18 * 13 + 299 = 0 \<and>
   (0 :: real) * 0 + 1 * 1 + 0 * 0 = 1 \<and>
   ((50 :: real) + 13 * 0 - 50)\<^sup>2 + (52 + 13 * 1 - 70)\<^sup>2 + (81.6 + 13 * 0 - 81.6)\<^sup>2 = 5\<^sup>2"
proof -
  from Sphere_intersect_smallest_root [OF refl refl refl refl,
      of 5 50 70 "81.6" Vec0 blackSurf 50 52 "81.6" 0 1 0]
  obtain t where
    t: "Sphere_intersect (Sphere (Fin 5) (Vec (Fin 50) (Fin 70) (Fin 81.6)) Vec0 blackSurf)
          (Ray (Vec (Fin 50) (Fin 52) (Fin 81.6)) (Vec (Fin 0) (Fin 1) (Fin 0))) = Fin t" and
    n: "0 \<le> (18 :: real) * 18 - 299 \<and> 0.0001 < 18 - sqrt (18 * 18 - 299) \<longrightarrow>
          t = 18 - sqrt (18 * 18 - 299)"
    by auto
  have "sqrt (18 * 18 - 299) = 5" using sqrt_25 by simp
  with t n show ?thesis by simp
qed

section \<open>The specular and the diffuse BRDF\<close>

lemma sum_squares_zero:
  fixes x y z :: real
  shows "(x * x + y * y + z * z = 0) = (x = 0 \<and> y = 0 \<and> z = 0)"
proof -
  have "(x\<^sup>2 + y\<^sup>2 + z\<^sup>2 = 0) = (x = 0 \<and> y = 0 \<and> z = 0)"
    by (simp add: add_nonneg_eq_0_iff)
  then show ?thesis by (simp add: power2_eq_square)
qed

lemma NaN_minus [simp]: "NaN - a = NaN"
  by (simp add: minus_double_def)

lemma minus_NaN [simp]: "a - NaN = NaN"
  by (cases a) (simp_all add: minus_double_def)

text \<open>
  \<^verbatim>\<open>normalize\<close> on finite numbers: the zero vector becomes NaN in every component,
  any other vector is divided by its length.
\<close>

lemma Vec_normalize_real:
  "Vec_normalize (Vec (Fin x) (Fin y) (Fin z)) =
     (if x * x + y * y + z * z = 0 then Vec NaN NaN NaN
      else Vec (Fin (x / sqrt (x * x + y * y + z * z))) (Fin (y / sqrt (x * x + y * y + z * z)))
               (Fin (z / sqrt (x * x + y * y + z * z))))"
proof -
  have "\<not> x * x + y * y + z * z < 0"
    by (simp add: not_less)
  then show ?thesis by (auto simp: sum_squares_zero)
qed

lemma mirroredDirection_real:
  "mirroredDirection (Vec (Fin nx) (Fin ny) (Fin nz)) (Vec (Fin ox) (Fin oy) (Fin oz)) =
     Vec (Fin (2 * (nx * ox + ny * oy + nz * oz) * nx - ox))
         (Fin (2 * (nx * ox + ny * oy + nz * oz) * ny - oy))
         (Fin (2 * (nx * ox + ny * oy + nz * oz) * nz - oz))"
  by (simp add: mirroredDirection_def algebra_simps)

text \<open>
  C6.  For finite \<open>n\<close>, \<open>o\<close> and \<open>i\<close>, with \<open>m = 2 (n\<cdot>o) n - o\<close> the mirror direction
  of \<open>o\<close> about \<open>n\<close>, \<open>|m|\<close> and \<open>|i|\<close> the lengths and \<open>c = n\<cdot>i\<close>: the specular
  \<^verbatim>\<open>sample\<close> draws no random number and returns \<open>m\<close> with pdf \<open>1\<close>; the specular
  \<^verbatim>\<open>eval\<close> returns the reflectance times \<open>1 / c\<close> in each component when \<open>i\<close> and
  \<open>m\<close> are not zero and every component of \<open>i / |i|\<close> is within \<open>10\<^sup>-\<^sup>4\<close> of the same
  component of \<open>m / |m|\<close>, and the zero vector otherwise; for \<open>c \<noteq> 0\<close> that is the
  reflectance divided by \<open>c\<close>; and every positive multiple \<open>i = s m\<close> of a mirror
  direction that is not zero passes the test, so it is the normalized directions that
  are compared.
\<close>

theorem SpecularBRDF_eval_sample:
  fixes nx ny nz ox oy oz ix iy iz kr kg kb :: real
  defines "mx \<equiv> 2 * (nx * ox + ny * oy + nz * oz) * nx - ox"
      and "my \<equiv> 2 * (nx * ox + ny * oy + nz * oz) * ny - oy"
      and "mz \<equiv> 2 * (nx * ox + ny * oy + nz * oz) * nz - oz"
  defines "lm \<equiv> sqrt (mx * mx + my * my + mz * mz)"
      and "li \<equiv> sqrt (ix * ix + iy * iy + iz * iz)"
      and "c \<equiv> nx * ix + ny * iy + nz * iz"
  shows "BRDF_sample \<xi> k (SpecularBRDF ks) (Vec (Fin nx) (Fin ny) (Fin nz))
           (Vec (Fin ox) (Fin oy) (Fin oz)) = (Vec (Fin mx) (Fin my) (Fin mz), Fin 1, k) \<and>
         BRDF_eval (SpecularBRDF (Vec (Fin kr) (Fin kg) (Fin kb))) (Vec (Fin nx) (Fin ny) (Fin nz))
           (Vec (Fin ox) (Fin oy) (Fin oz)) (Vec (Fin ix) (Fin iy) (Fin iz)) =
           (if li \<noteq> 0 \<and> lm \<noteq> 0 \<and> \<bar>ix / li - mx / lm\<bar> \<le> 0.0001 \<and>
               \<bar>iy / li - my / lm\<bar> \<le> 0.0001 \<and> \<bar>iz / li - mz / lm\<bar> \<le> 0.0001
            then Vec (Fin kr * (Fin 1 / Fin c)) (Fin kg * (Fin 1 / Fin c)) (Fin kb * (Fin 1 / Fin c))
            else Vec (Fin 0) (Fin 0) (Fin 0)) \<and>
         (c \<noteq> 0 \<longrightarrow>
            Vec (Fin kr * (Fin 1 / Fin c)) (Fin kg * (Fin 1 / Fin c)) (Fin kb * (Fin 1 / Fin c)) =
            Vec (Fin (kr / c)) (Fin (kg / c)) (Fin (kb / c))) \<and>
         (0 < s \<and> lm \<noteq> 0 \<and> ix = s * mx \<and> iy = s * my \<and> iz = s * mz \<longrightarrow>
            BRDF_eval (SpecularBRDF (Vec (Fin kr) (Fin kg) (Fin kb))) (Vec (Fin nx) (Fin ny) (Fin nz))
              (Vec (Fin ox) (Fin oy) (Fin oz)) (Vec (Fin ix) (Fin iy) (Fin iz)) =
            Vec (Fin kr * (Fin 1 / Fin c)) (Fin kg * (Fin 1 / Fin c)) (Fin kb * (Fin 1 / Fin c)))"
proof -
  have smp: "BRDF_sample \<xi> k (SpecularBRDF ks) (Vec (Fin nx) (Fin ny) (Fin nz))
           (Vec (Fin ox) (Fin oy) (Fin oz)) = (Vec (Fin mx) (Fin my) (Fin mz), Fin 1, k)"
    by (simp add: mirroredDirection_real mx_def my_def mz_def)
  have li0: "(ix * ix + iy * iy + iz * iz = 0) = (li = 0)"
    by (simp add: li_def)
  have lm0: "(mx * mx + my * my + mz * mz = 0) = (lm = 0)"
    by (simp add: lm_def)
  have ev: "BRDF_eval (SpecularBRDF (Vec (Fin kr) (Fin kg) (Fin kb))) (Vec (Fin nx) (Fin ny) (Fin nz))
           (Vec (Fin ox) (Fin oy) (Fin oz)) (Vec (Fin ix) (Fin iy) (Fin iz)) =
           (if li \<noteq> 0 \<and> lm \<noteq> 0 \<and> \<bar>ix / li - mx / lm\<bar> \<le> 0.0001 \<and>
               \<bar>iy / li - my / lm\<bar> \<le> 0.0001 \<and> \<bar>iz / li - mz / lm\<bar> \<le> 0.0001
            then Vec (Fin kr * (Fin 1 / Fin c)) (Fin kg * (Fin 1 / Fin c)) (Fin kb * (Fin 1 / Fin c))
            else Vec (Fin 0) (Fin 0) (Fin 0))"
    unfolding BRDF_eval.simps mirroredDirection_real Vec_normalize_real Let_def
      mx_def [symmetric] my_def [symmetric] mz_def [symmetric] li0 lm0
      lm_def [symmetric] li_def [symmetric]
    by (simp add: Vec0_def c_def)
  have fin: "Vec (Fin kr * (Fin 1 / Fin c)) (Fin kg * (Fin 1 / Fin c)) (Fin kb * (Fin 1 / Fin c)) =
            Vec (Fin (kr / c)) (Fin (kg / c)) (Fin (kb / c))" if "c \<noteq> 0"
    using that by simp
  have scale: "\<bar>ix / li - mx / lm\<bar> \<le> 0.0001 \<and> \<bar>iy / li - my / lm\<bar> \<le> 0.0001 \<and>
      \<bar>iz / li - mz / lm\<bar> \<le> 0.0001 \<and> li \<noteq> 0"
    if s: "0 < s" and l: "lm \<noteq> 0" and i: "ix = s * mx" "iy = s * my" "iz = s * mz"
  proof -
    have "ix * ix + iy * iy + iz * iz = s\<^sup>2 * (mx * mx + my * my + mz * mz)"
      unfolding i by (simp add: power2_eq_square algebra_simps)
    then have "li = s * lm"
      unfolding li_def lm_def using s by (simp add: real_sqrt_mult)
    with s l i show ?thesis by simp
  qed
  have sc: "0 < s \<and> lm \<noteq> 0 \<and> ix = s * mx \<and> iy = s * my \<and> iz = s * mz \<longrightarrow>
            BRDF_eval (SpecularBRDF (Vec (Fin kr) (Fin kg) (Fin kb))) (Vec (Fin nx) (Fin ny) (Fin nz))
              (Vec (Fin ox) (Fin oy) (Fin oz)) (Vec (Fin ix) (Fin iy) (Fin iz)) =
            Vec (Fin kr * (Fin 1 / Fin c)) (Fin kg * (Fin 1 / Fin c)) (Fin kb * (Fin 1 / Fin c))"
  proof (intro impI)
    assume a: "0 < s \<and> lm \<noteq> 0 \<and> ix = s * mx \<and> iy = s * my \<and> iz = s * mz"
    then have "\<bar>ix / li - mx / lm\<bar> \<le> 0.0001 \<and> \<bar>iy / li - my / lm\<bar> \<le> 0.0001 \<and>
      \<bar>iz / li - mz / lm\<bar> \<le> 0.0001 \<and> li \<noteq> 0"
      by (intro scale) simp_all
    with a show "BRDF_eval (SpecularBRDF (Vec (Fin kr) (Fin kg) (Fin kb)))
              (Vec (Fin nx) (Fin ny) (Fin nz))
              (Vec (Fin ox) (Fin oy) (Fin oz)) (Vec (Fin ix) (Fin iy) (Fin iz)) =
            Vec (Fin kr * (Fin 1 / Fin c)) (Fin kg * (Fin 1 / Fin c)) (Fin kb * (Fin 1 / Fin c))"
      unfolding ev by (simp only: if_True simp_thms)
  qed
  show ?thesis
    apply (intro conjI)
    subgoal by (rule smp)
    subgoal by (rule ev)
    subgoal using fin by blast
    subgoal by (rule sc)
    done
qed

text \<open>
  With \<open>n = o = (0, 0, 1)\<close> the mirror direction is \<open>(0, 0, 1)\<close>: the direction
  \<open>(0, 0, 2)\<close> of length two gets the reflectance divided by \<open>n\<cdot>i = 2\<close>, the direction
  \<open>(2, 0, 0)\<close> gets zero.
\<close>

theorem SpecularBRDF_eval_sample_witness:
  "BRDF_eval (SpecularBRDF (Vec (Fin 0.999) (Fin 0.999) (Fin 0.999))) (Vec (Fin 0) (Fin 0) (Fin 1))
     (Vec (Fin 0) (Fin 0) (Fin 1)) (Vec (Fin 0) (Fin 0) (Fin 2)) =
     Vec (Fin (0.999 / 2)) (Fin (0.999 / 2)) (Fin (0.999 / 2)) \<and>
   BRDF_eval (SpecularBRDF (Vec (Fin 0.999) (Fin 0.999) (Fin 0.999))) (Vec (Fin 0) (Fin 0) (Fin 1))
     (Vec (Fin 0) (Fin 0) (Fin 1)) (Vec (Fin 2) (Fin 0) (Fin 0)) = Vec (Fin 0) (Fin 0) (Fin 0)"
  using SpecularBRDF_eval_sample [where nx = 0 and ny = 0 and nz = 1 and ox = 0 and oy = 0
      and oz = 1 and ix = 0 and iy = 0 and iz = 2 and kr = "0.999" and kg = "0.999"
      and kb = "0.999" and s = 2]
    SpecularBRDF_eval_sample [where nx = 0 and ny = 0 and nz = 1 and ox = 0 and oy = 0
      and oz = 1 and ix = 2 and iy = 0 and iz = 0 and kr = "0.999" and kg = "0.999"
      and kb = "0.999"]
  by simp

lemma uniformRandomPSA_shape:
  "\<exists>w. uniformRandomPSA \<xi> k n odir =
     (Vec_normalize w, Vec_dot n (Vec_normalize w) / Fin PI, Suc (Suc k))"
  unfolding uniformRandomPSA_def Let_def by (cases "createLocalCoord n") auto

lemma diffuse_weight:
  assumes s: "BRDF_sample \<xi> k (DiffuseBRDF (Vec (Fin kr) (Fin kg) (Fin kb))) n odir = (i, pdf, k')"
      and c: "Vec_dot n i = Fin c" and pos: "0 < c"
  shows "pdf = Fin (c / PI) \<and>
         Vec_mul (BRDF_eval (DiffuseBRDF (Vec (Fin kr) (Fin kg) (Fin kb))) n odir i)
                 (Vec_dot n i / pdf) = Vec (Fin kr) (Fin kg) (Fin kb) \<and>
         Vec_normalize i = i \<and>
         (0 < p \<longrightarrow>
            Vec_mul (Vec_mult (Vec (Fin rx) (Fin ry) (Fin rz))
                       (BRDF_eval (DiffuseBRDF (Vec (Fin kr) (Fin kg) (Fin kb))) n odir i))
                    (Vec_dot n i / (pdf * Fin p)) =
            Vec (Fin (rx * kr / p)) (Fin (ry * kg / p)) (Fin (rz * kb / p)))"
proof -
  from uniformRandomPSA_shape [of \<xi> k n odir] s obtain w where
    i: "i = Vec_normalize w" and pdf: "pdf = Vec_dot n i / Fin PI"
    by auto
  have P: "PI \<noteq> 0" "0 < PI" using PI_pos by simp_all
  have 1: "pdf = Fin (c / PI)" using pdf c P by simp
  from Vec_dot_eq_Fin [OF c] obtain a b d where fin: "i = Vec (Fin a) (Fin b) (Fin d)" by blast
  have 3: "Vec_normalize i = i"
    using Vec_normalize_idem [of w a b d] fin i by simp
  have 2: "Vec_mul (BRDF_eval (DiffuseBRDF (Vec (Fin kr) (Fin kg) (Fin kb))) n odir i)
                 (Vec_dot n i / pdf) = Vec (Fin kr) (Fin kg) (Fin kb)"
    using pos P by (simp add: c 1)
  have 4: "Vec_mul (Vec_mult (Vec (Fin rx) (Fin ry) (Fin rz))
                       (BRDF_eval (DiffuseBRDF (Vec (Fin kr) (Fin kg) (Fin kb))) n odir i))
                    (Vec_dot n i / (pdf * Fin p)) =
            Vec (Fin (rx * kr / p)) (Fin (ry * kg / p)) (Fin (rz * kb / p))" if "0 < p"
    using pos P that by (simp add: c 1)
  from 1 2 3 4 show ?thesis by blast
qed

text \<open>
  C10.  When the diffuse \<^verbatim>\<open>sample\<close> returns a direction \<open>i\<close> with \<open>n\<cdot>i = c > 0\<close>
  (all numbers finite, arithmetic exact): the pdf it returns is \<open>c / PI\<close>; \<^verbatim>\<open>eval\<close>
  scaled by \<open>(n\<cdot>i) / pdf\<close> is the reflectance \<open>kd\<close>; normalizing \<open>i\<close> once more, as the
  estimator does, leaves it as it is; and for a roulette probability \<open>p > 0\<close> the
  indirect term of a recursive result \<open>(rx, ry, rz)\<close> is that result times \<open>kd / p\<close>
  in each component, whatever the direction.
\<close>

theorem DiffuseBRDF_weight:
  assumes s: "BRDF_sample \<xi> k (DiffuseBRDF (Vec (Fin kr) (Fin kg) (Fin kb))) n odir = (i, pdf, k')"
      and c: "Vec_dot n i = Fin c" and pos: "0 < c"
  shows "pdf = Fin (c / PI) \<and>
         Vec_mul (BRDF_eval (DiffuseBRDF (Vec (Fin kr) (Fin kg) (Fin kb))) n odir i)
                 (Vec_dot n i / pdf) = Vec (Fin kr) (Fin kg) (Fin kb) \<and>
         Vec_normalize i = i \<and>
         (0 < p \<longrightarrow>
            Vec_mul (Vec_mult (Vec (Fin rx) (Fin ry) (Fin rz))
                       (BRDF_eval (DiffuseBRDF (Vec (Fin kr) (Fin kg) (Fin kb))) n odir i))
                    (Vec_dot n i / (pdf * Fin p)) =
            Vec (Fin (rx * kr / p)) (Fin (ry * kg / p)) (Fin (rz * kb / p)))"
  using assms by (rule diffuse_weight)

theorem DiffuseBRDF_weight_witness:
  "BRDF_sample xi_diffuse 0 (DiffuseBRDF (Vec (Fin 0.75) (Fin 0.25) (Fin 0.25)))
     (Vec (Fin 0) (Fin 1) (Fin 0)) (Vec (Fin 0) (Fin 1) (Fin 0)) =
     (Vec (Fin 0) (Fin (4 / 5)) (Fin (3 / 5)), Fin (4 / 5 / PI), 2) \<and>
   Vec_dot (Vec (Fin 0) (Fin 1) (Fin 0)) (Vec (Fin 0) (Fin (4 / 5)) (Fin (3 / 5))) = Fin (4 / 5) \<and>
   (0 :: real) < 4 / 5 \<and> (0 :: real) < 9 / 10 \<and>
   Vec_mul (BRDF_eval (DiffuseBRDF (Vec (Fin 0.75) (Fin 0.25) (Fin 0.25)))
              (Vec (Fin 0) (Fin 1) (Fin 0)) (Vec (Fin 0) (Fin 1) (Fin 0))
              (Vec (Fin 0) (Fin (4 / 5)) (Fin (3 / 5))))
     (Vec_dot (Vec (Fin 0) (Fin 1) (Fin 0)) (Vec (Fin 0) (Fin (4 / 5)) (Fin (3 / 5))) /
        Fin (4 / 5 / PI)) = Vec (Fin 0.75) (Fin 0.25) (Fin 0.25) \<and>
   Vec_mul (Vec_mult (Vec (Fin 2) (Fin 4) (Fin 8))
              (BRDF_eval (DiffuseBRDF (Vec (Fin 0.75) (Fin 0.25) (Fin 0.25)))
                 (Vec (Fin 0) (Fin 1) (Fin 0)) (Vec (Fin 0) (Fin 1) (Fin 0))
                 (Vec (Fin 0) (Fin (4 / 5)) (Fin (3 / 5)))))
     (Vec_dot (Vec (Fin 0) (Fin 1) (Fin 0)) (Vec (Fin 0) (Fin (4 / 5)) (Fin (3 / 5))) /
        (Fin (4 / 5 / PI) * Fin (9 / 10))) =
     Vec (Fin (2 * 0.75 / (9 / 10))) (Fin (4 * 0.25 / (9 / 10))) (Fin (8 * 0.25 / (9 / 10)))"
proof -
  have s: "BRDF_sample xi_diffuse 0 (DiffuseBRDF (Vec (Fin 0.75) (Fin 0.25) (Fin 0.25)))
     (Vec (Fin 0) (Fin 1) (Fin 0)) (Vec (Fin 0) (Fin 1) (Fin 0)) =
     (Vec (Fin 0) (Fin (4 / 5)) (Fin (3 / 5)), Fin (4 / 5 / PI), 2)"
    using PI_pos
    by (simp add: uniformRandomPSA_def createLocalCoord_def xi_diffuse_def Let_def
        sqrt_16_25 sqrt_9_25 real_sqrt_divide)
  have c: "Vec_dot (Vec (Fin 0) (Fin 1) (Fin 0)) (Vec (Fin 0) (Fin (4 / 5)) (Fin (3 / 5))) =
             Fin (4 / 5)"
    by simp
  from DiffuseBRDF_weight [OF s c, of "9 / 10" 2 4 8] s c
  show ?thesis by simp
qed

section \<open>The light sampler\<close>

text \<open>
  C7.  For a sphere of finite center \<open>(cx, cy, cz)\<close> and radius \<open>R > 0\<close> and a first
  draw in \<open>[0, 1)\<close>, \<^verbatim>\<open>luminaireSample\<close> takes two draws and returns a finite point,
  normal and pdf with: \<open>nz = 2 \<xi>\<^sub>1 - 1\<close> and the azimuth \<open>2 PI \<xi>\<^sub>2\<close> in \<open>nx\<close> and \<open>ny\<close>;
  the point at distance \<open>R\<close> from the center; the normal of length one and equal to
  (point - center) / \<open>R\<close>; and the pdf \<open>1 / (4 PI R\<^sup>2)\<close>.  (Arithmetic is exact.)
\<close>

theorem luminaireSample_on_sphere:
  fixes R cx cy cz :: real
  assumes R: "0 < R" and lo: "0 \<le> \<xi> k" and hi: "\<xi> k < 1"
  shows "\<exists>px py pz nx ny nz.
     luminaireSample \<xi> k (Sphere (Fin R) (Vec (Fin cx) (Fin cy) (Fin cz)) e m) =
       (Vec (Fin px) (Fin py) (Fin pz), Vec (Fin nx) (Fin ny) (Fin nz),
        Fin (1 / (4 * PI * (R * R))), k + 2) \<and>
     nz = 2 * \<xi> k - 1 \<and>
     nx = sqrt (1 - nz * nz) * cos (2 * PI * \<xi> (Suc k)) \<and>
     ny = sqrt (1 - nz * nz) * sin (2 * PI * \<xi> (Suc k)) \<and>
     sqrt ((px - cx)\<^sup>2 + (py - cy)\<^sup>2 + (pz - cz)\<^sup>2) = R \<and>
     nx\<^sup>2 + ny\<^sup>2 + nz\<^sup>2 = 1 \<and>
     nx = (px - cx) / R \<and> ny = (py - cy) / R \<and> nz = (pz - cz) / R"
proof -
  define z where "z = 2 * \<xi> k - 1"
  define s where "s = sqrt (1 - z * z)"
  define phi where "phi = 2 * PI * \<xi> (Suc k)"
  have zr: "- 1 \<le> z" "z < 1" using lo hi by (simp_all add: z_def)
  have "z * z \<le> 1"
  proof -
    have "\<bar>z\<bar> \<le> 1" using zr by simp
    then have "\<bar>z\<bar> * \<bar>z\<bar> \<le> 1 * 1" by (intro mult_mono) simp_all
    then show ?thesis by (simp add: abs_mult_self_eq)
  qed
  then have nn: "\<not> 1 - z * z < 0" by simp
  have ss: "s * s = 1 - z * z" using \<open>z * z \<le> 1\<close> by (simp add: s_def)
  have unit: "(s * cos phi)\<^sup>2 + (s * sin phi)\<^sup>2 + z\<^sup>2 = 1"
  proof -
    have "(s * cos phi)\<^sup>2 + (s * sin phi)\<^sup>2 = s\<^sup>2 * ((cos phi)\<^sup>2 + (sin phi)\<^sup>2)"
      by (simp only: power_mult_distrib distrib_left)
    also have "\<dots> = s * s" by (simp add: power2_eq_square)
    also have "\<dots> = 1 - z * z" by (simp add: ss)
    finally show ?thesis by (simp add: power2_eq_square)
  qed
  have pdf: "4 * PI * (R * R) \<noteq> 0" using R PI_pos by simp
  have eq: "luminaireSample \<xi> k (Sphere (Fin R) (Vec (Fin cx) (Fin cy) (Fin cz)) e m) =
       (Vec (Fin (cx + s * cos phi * R)) (Fin (cy + s * sin phi * R)) (Fin (cz + z * R)),
        Vec (Fin (s * cos phi)) (Fin (s * sin phi)) (Fin z),
        Fin (1 / (4 * PI * (R * R))), k + 2)"
    using nn pdf unfolding luminaireSample_def Let_def z_def [symmetric]
    by (simp add: z_def [symmetric] s_def phi_def)
  have dist: "sqrt ((cx + s * cos phi * R - cx)\<^sup>2 + (cy + s * sin phi * R - cy)\<^sup>2 +
                    (cz + z * R - cz)\<^sup>2) = R"
  proof -
    have "(cx + s * cos phi * R - cx)\<^sup>2 + (cy + s * sin phi * R - cy)\<^sup>2 + (cz + z * R - cz)\<^sup>2
        = ((s * cos phi)\<^sup>2 + (s * sin phi)\<^sup>2 + z\<^sup>2) * R\<^sup>2"
      by (simp add: power2_eq_square algebra_simps)
    also have "\<dots> = R\<^sup>2" by (simp add: unit)
    finally show ?thesis using R by simp
  qed
  show ?thesis
    apply (rule exI [of _ "cx + s * cos phi * R"])
    apply (rule exI [of _ "cy + s * sin phi * R"])
    apply (rule exI [of _ "cz + z * R"])
    apply (rule exI [of _ "s * cos phi"])
    apply (rule exI [of _ "s * sin phi"])
    apply (rule exI [of _ "z"])
    using eq dist unit R
    by (simp add: z_def s_def phi_def)
qed

theorem luminaireSample_on_sphere_witness:
  "(0 :: real) < 5 \<and> 0 \<le> xi_light 0 \<and> xi_light 0 < 1 \<and>
   luminaireSample xi_light 0 (Sphere (Fin 5) (Vec (Fin 50) (Fin 70) (Fin 81.6))
       (Vec (Fin 50) (Fin 50) (Fin 50)) blackSurf) =
     (Vec (Fin 55) (Fin 70) (Fin 81.6), Vec (Fin 1) (Fin 0) (Fin 0),
      Fin (1 / (4 * PI * (5 * 5))), 2) \<and>
   sqrt (((55 :: real) - 50)\<^sup>2 + (70 - 70)\<^sup>2 + (81.6 - 81.6)\<^sup>2) = 5"
proof -
  have h: "(0 :: real) < 5" "0 \<le> xi_light 0" "xi_light 0 < 1"
    by (simp_all add: xi_light_def)
  from luminaireSample_on_sphere [where \<xi> = xi_light and k = 0 and R = 5 and cx = 50 and cy = 70
      and cz = "81.6" and e = "Vec (Fin 50) (Fin 50) (Fin 50)" and m = blackSurf, OF h]
  obtain px py pz nx ny nz where
    l: "luminaireSample xi_light 0 (Sphere (Fin 5) (Vec (Fin 50) (Fin 70) (Fin 81.6))
           (Vec (Fin 50) (Fin 50) (Fin 50)) blackSurf) =
         (Vec (Fin px) (Fin py) (Fin pz), Vec (Fin nx) (Fin ny) (Fin nz),
          Fin (1 / (4 * PI * (5 * 5))), 0 + 2)" and
    nz: "nz = 2 * xi_light 0 - 1" and
    nx: "nx = sqrt (1 - nz * nz) * cos (2 * PI * xi_light (Suc 0))" and
    ny: "ny = sqrt (1 - nz * nz) * sin (2 * PI * xi_light (Suc 0))" and
    p: "nx = (px - 50) / 5" "ny = (py - 70) / 5" "nz = (pz - 81.6) / 5"
    by blast
  have "nz = 0" "nx = 1" "ny = 0"
    using nz nx ny by (simp_all add: xi_light_def)
  with p have "px = 55" "py = 70" "pz = 81.6" by simp_all
  with l \<open>nz = 0\<close> \<open>nx = 1\<close> \<open>ny = 0\<close> h show ?thesis by simp
qed

section \<open>The sample count\<close>

lemma to_int_range: "- (2 ^ 31) \<le> to_int v \<and> to_int v < 2 ^ 31"
  unfolding to_int_def by simp

lemma to_int_id:
  assumes "- (2 ^ 31) \<le> v" and "v < 2 ^ 31"
  shows "to_int v = v"
  using assms unfolding to_int_def by (simp add: mod_pos_pos_trivial)

lemma atoi_in_range:
  assumes "- (2 ^ 31) \<le> atoi_value s" and "atoi_value s < 2 ^ 31"
  shows "atoi s = atoi_value s"
  using assms unfolding atoi_def strtol_def by (simp add: to_int_id)

text \<open>
  C4 (as amended).  With exactly one argument the sample count is \<^verbatim>\<open>atoi\<close> of the
  argument divided by \<open>4\<close>, truncated toward zero, with no lower bound: it is at least
  \<open>1\<close> exactly when \<^verbatim>\<open>atoi\<close> of the argument is at least \<open>4\<close>.  \<^verbatim>\<open>atoi\<close> returns
  an \<^verbatim>\<open>int\<close> of 32 bits, which is the number written when that lies between
  \<open>- 2\<^sup>3\<^sup>1\<close> and \<open>2\<^sup>3\<^sup>1 - 1\<close>.  With any other number of arguments the count is \<open>1\<close>.
\<close>

theorem samps_no_minimum:
  "(length argv = 2 \<longrightarrow>
      samps argv = atoi (argv ! 1) sdiv 4 \<and> (1 \<le> samps argv) = (4 \<le> atoi (argv ! 1)) \<and>
      - (2 ^ 31) \<le> atoi (argv ! 1) \<and> atoi (argv ! 1) < 2 ^ 31 \<and>
      (- (2 ^ 31) \<le> atoi_value (argv ! 1) \<and> atoi_value (argv ! 1) < 2 ^ 31 \<longrightarrow>
         atoi (argv ! 1) = atoi_value (argv ! 1) \<and>
         (1 \<le> samps argv) = (4 \<le> atoi_value (argv ! 1)))) \<and>
   (length argv \<noteq> 2 \<longrightarrow> samps argv = 1)"
proof -
  have "(1 \<le> a sdiv 4) = (4 \<le> a)" for a :: int
    by (cases "0 \<le> a") (auto simp: signed_divide_int_def sgn_if)
  then show ?thesis
    using to_int_range [of "strtol (argv ! 1)"] atoi_in_range [of "argv ! 1"]
    by (simp add: samps_def atoi_def)
qed

theorem samps_no_minimum_witness:
  "length [''simplept'', ''16''] = 2 \<and> atoi_value ''16'' = 16 \<and>
   samps [''simplept'', ''16''] = 4 \<and>
   length [''simplept'', ''4294967312''] = 2 \<and> atoi_value ''4294967312'' = 4294967312 \<and>
   atoi ''4294967312'' = 16 \<and> samps [''simplept'', ''4294967312''] = 4 \<and>
   length [''simplept''] \<noteq> 2 \<and> samps [''simplept''] = 1"
proof -
  have "atoi ''4294967312'' = 16"
    by (simp add: atoi_def strtol_def to_int_def)
  with samps_no_minimum [of "[''simplept'', ''16'']"]
    samps_no_minimum [of "[''simplept'', ''4294967312'']"]
    samps_no_minimum [of "[''simplept'']"]
  show ?thesis by (simp add: signed_divide_int_def)
qed

text \<open>
  With the argument \<open>2\<close> the sample count is \<open>0\<close>, where a minimum of \<open>1\<close> would
  give \<open>1\<close>.
\<close>

theorem samps_minimum_counterexample:
  "samps [''simplept'', ''2''] = 0 \<and> max 1 (atoi ''2'' sdiv 4) = 1"
  by (simp add: samps_def atoi_def strtol_def to_int_def signed_divide_int_def)

section \<open>The nearest hit\<close>

text \<open>
  A test on rational numbers that a sphere is missed or met beyond the distance \<open>T\<close>:
  both roots are at most \<open>10\<^sup>-\<^sup>4\<close>, or the near root is and the far root is beyond
  \<open>T\<close>.
\<close>

lemma isect_far:
  fixes b det T :: real
  assumes "det < 0 \<or> (b \<le> 0.0001 \<and> det \<le> (0.0001 - b)\<^sup>2) \<or>
           ((b \<le> 0.0001 \<or> (b - 0.0001)\<^sup>2 \<le> det) \<and> (T < b \<or> (T - b)\<^sup>2 < det))"
  shows "isect b det = 0 \<or> T < isect b det"
proof (cases "det < 0")
  case True
  then show ?thesis by (simp add: isect_def)
next
  case False
  define s where "s = sqrt det"
  have s: "0 \<le> s" using False by (simp add: s_def)
  have i: "isect b det = (if 0.0001 < b - s then b - s else if 0.0001 < b + s then b + s else 0)"
    using False by (simp add: isect_def s_def)
  from assms False consider
    (behind) "b \<le> 0.0001" "det \<le> (0.0001 - b)\<^sup>2"
    | (beyond) "b \<le> 0.0001 \<or> (b - 0.0001)\<^sup>2 \<le> det" "T < b \<or> (T - b)\<^sup>2 < det"
    by blast
  then show ?thesis
  proof cases
    case behind
    have "s \<le> 0.0001 - b"
      unfolding s_def using behind by (intro real_le_lsqrt) simp_all
    with s i show ?thesis by auto
  next
    case beyond
    have near: "\<not> 0.0001 < b - s"
    proof -
      from beyond(1) have "b - 0.0001 \<le> s"
      proof
        assume "b \<le> 0.0001" with s show ?thesis by linarith
      next
        assume "(b - 0.0001)\<^sup>2 \<le> det"
        then show ?thesis unfolding s_def by (rule real_le_rsqrt)
      qed
      then show ?thesis by linarith
    qed
    have far: "T < b + s"
    proof -
      from beyond(2) have "T - b < s"
      proof
        assume "T < b" with s show ?thesis by linarith
      next
        assume "(T - b)\<^sup>2 < det"
        then show ?thesis unfolding s_def by (rule real_less_rsqrt)
      qed
      then show ?thesis by linarith
    qed
    from near far i show ?thesis by auto
  qed
qed

text \<open>
  If sphere \<open>j\<close> is met at the distance \<open>T\<close> and every other sphere is missed or
  met beyond \<open>T\<close>, the scan returns \<open>T\<close> and \<open>j\<close>.
\<close>

lemma intersect_loop_nearest:
  assumes others: "\<forall>i<n. i \<noteq> j \<longrightarrow>
             (\<exists>d. Sphere_intersect (spheres ! i) r = Fin d \<and> (d = 0 \<or> T < d))"
      and hit: "Sphere_intersect (spheres ! j) r = Fin T" and T: "T \<noteq> 0"
      and st: "if j < n then Fin T < t else (t, hid) = (Fin T, j)"
  shows "intersect_loop r n (t, hid) = (Fin T, j)"
  using others st
proof (induction n arbitrary: t hid)
  case 0
  then show ?case by simp
next
  case (Suc m)
  show ?case
  proof (cases "m = j")
    case True
    with Suc.prems(2) have "Fin T < t" by simp
    with True hit T have "intersect_loop r (Suc m) (t, hid) = intersect_loop r m (Fin T, j)"
      by (simp add: Let_def)
    also have "\<dots> = (Fin T, j)"
      using Suc.prems(1) True by (intro Suc.IH) auto
    finally show ?thesis .
  next
    case False
    with Suc.prems(1) obtain d where
      d: "Sphere_intersect (spheres ! m) r = Fin d" and far: "d = 0 \<or> T < d"
      by auto
    show ?thesis
    proof (cases "j < m")
      case True
      with Suc.prems(2) have tt: "Fin T < t" by simp
      define st' where "st' = (if Fin d \<noteq> Fin 0 \<and> Fin d < t then (Fin d, m) else (t, hid))"
      have "Fin T < fst st'" using tt far by (auto simp: st'_def)
      then have "intersect_loop r m (fst st', snd st') = (Fin T, j)"
        using Suc.prems(1) True by (intro Suc.IH) auto
      then show ?thesis by (simp add: d Let_def st'_def split: if_splits)
    next
      case False
      with \<open>m \<noteq> j\<close> have jm: "\<not> j < Suc m" "\<not> j < m" by simp_all
      with Suc.prems(2) have e: "(t, hid) = (Fin T, j)" by simp
      then have "intersect_loop r (Suc m) (t, hid) = intersect_loop r m (Fin T, j)"
        using far by (auto simp: d Let_def)
      also have "\<dots> = (Fin T, j)"
        using Suc.prems(1) jm by (intro Suc.IH) auto
      finally show ?thesis .
    qed
  qed
qed

lemma less_8_cases:
  assumes "i < (8::nat)"
  shows "i \<in> {0, 1, 2, 3, 4, 5, 6, 7}"
proof -
  from assms have "i \<le> 7" by simp
  then show ?thesis by (simp add: le_Suc_eq numeral_eq_Suc)
qed

lemma all_spheres:
  assumes "P 0" and "P 1" and "P 2" and "P 3" and "P 4" and "P 5" and "P 6" and "P 7"
  shows "\<forall>i<8::nat. P i"
  using assms less_8_cases by auto

lemma intersect_nearest:
  assumes others: "\<forall>i<8. i \<noteq> j \<longrightarrow>
             (\<exists>d. Sphere_intersect (spheres ! i) r = Fin d \<and> (d = 0 \<or> T < d))"
      and hit: "Sphere_intersect (spheres ! j) r = Fin T" and T: "T \<noteq> 0"
      and j: "j < 8" and fin: "T < 100000000000000000000"
  shows "intersect r 0 = (True, Fin T, j)"
proof -
  have len: "length spheres = 8" by (simp add: spheres_def)
  have "intersect_loop r 8 (Fin 100000000000000000000, 0) = (Fin T, j)"
    using others hit T by (rule intersect_loop_nearest) (simp add: j fin)
  then show ?thesis using fin by (simp add: intersect_def len)
qed

text \<open>The floor ray meets the floor, sphere \<open>3\<close>, at the distance \<open>52\<close>.\<close>

lemma sqrt_1e10 [simp]: "sqrt 10000000000 = 100000"
  by (rule real_sqrt_unique) simp_all

lemmas scene_defs = spheres_def leftWall_def rightWall_def otherWall_def blackSurf_def
  brightSurf_def shinySurf_def Vec0_def

lemma floorRay_hit: "Sphere_intersect (spheres ! 3) floorRay = Fin 52"
  by (simp add: scene_defs floorRay_def Sphere_intersect_Fin isect_def)

lemma floorRay_others:
  fixes T :: real
  assumes T: "T = 52"
  shows "\<forall>i<8. i \<noteq> 3 \<longrightarrow>
     (\<exists>d. Sphere_intersect (spheres ! i) floorRay = Fin d \<and> (d = 0 \<or> T < d))"
  apply (rule all_spheres)
  subgoal
    by (simp add: scene_defs floorRay_def Sphere_intersect_Fin)
      (rule isect_far, simp add: power2_eq_square T)
  subgoal
    by (simp add: scene_defs floorRay_def Sphere_intersect_Fin)
      (rule isect_far, simp add: power2_eq_square T)
  subgoal
    by (simp add: scene_defs floorRay_def Sphere_intersect_Fin)
      (rule isect_far, simp add: power2_eq_square T)
  subgoal by simp
  subgoal
    by (simp add: scene_defs floorRay_def Sphere_intersect_Fin)
      (rule isect_far, simp add: power2_eq_square T)
  subgoal
    by (simp add: scene_defs floorRay_def Sphere_intersect_Fin)
      (rule isect_far, simp add: power2_eq_square T)
  subgoal
    by (simp add: scene_defs floorRay_def Sphere_intersect_Fin)
      (rule isect_far, simp add: power2_eq_square T)
  subgoal
    by (simp add: scene_defs floorRay_def Sphere_intersect_Fin)
      (rule isect_far, simp add: power2_eq_square T)
  done

lemma floorRay_intersect: "intersect floorRay 0 = (True, Fin 52, 3)"
  using floorRay_others [OF refl] floorRay_hit by (rule intersect_nearest) simp_all

section \<open>The radiance estimator\<close>

text \<open>One call of the estimator, on a miss and on a hit.\<close>

lemma receivedRadiance_miss:
  assumes "intersect r 0 = (False, t, hid)"
  shows "receivedRadiance \<xi> (Suc fuel) k r depth flag = Some (Vec0, k)"
  using assms by simp

lemma receivedRadiance_hit:
  assumes hit: "intersect r 0 = (True, t, hid)"
      and dir: "hit_direct \<xi> k r t (spheres ! hid) = (direct, k1)"
      and smp: "BRDF_sample \<xi> (Suc k1) (brdf (spheres ! hid)) (hit_n r t (spheres ! hid)) (hit_o r)
                  = (i0, pdf, k2)"
  shows "receivedRadiance \<xi> (Suc fuel) k r depth flag =
     (if Fin (\<xi> k1) < (if 5 \<le> depth then Fin 0.9 else Fin 1) then
        (case receivedRadiance \<xi> fuel k2 (Ray (hit_x r t) (Vec_normalize i0)) (depth + 1)
                (isSpecular (brdf (spheres ! hid))) of
           None \<Rightarrow> None
         | Some (rad', k3) \<Rightarrow>
             Some (if flag
                   then emi (spheres ! hid) +
                        (direct + Vec_mul (Vec_mult rad' (BRDF_eval (brdf (spheres ! hid))
                                     (hit_n r t (spheres ! hid)) (hit_o r) (Vec_normalize i0)))
                                    (Vec_dot (hit_n r t (spheres ! hid)) (Vec_normalize i0) /
                                       (pdf * (if 5 \<le> depth then Fin 0.9 else Fin 1))))
                   else direct + Vec_mul (Vec_mult rad' (BRDF_eval (brdf (spheres ! hid))
                                     (hit_n r t (spheres ! hid)) (hit_o r) (Vec_normalize i0)))
                                    (Vec_dot (hit_n r t (spheres ! hid)) (Vec_normalize i0) /
                                       (pdf * (if 5 \<le> depth then Fin 0.9 else Fin 1))),
                   k3))
      else Some (if flag then emi (spheres ! hid) + direct else direct, Suc k1))"
proof -
  have d: "(if \<not> isSpecular (brdf (spheres ! hid))
            then directRadiance \<xi> k (spheres ! hid)
                   (Ray (ray_o r + Vec_mul (ray_d r) t) (Vec_normalize (Vec0 - ray_d r)))
                   (hit_n r t (spheres ! hid))
            else (Vec0, k)) = (direct, k1)"
    using dir unfolding hit_direct_def hit_x_def hit_o_def .
  have n: "(if Vec_dot (Vec_normalize (ray_o r + Vec_mul (ray_d r) t - pos (spheres ! hid)))
                (Vec_normalize (Vec0 - ray_d r)) < Fin 0
            then Vec_mul (Vec_normalize (ray_o r + Vec_mul (ray_d r) t - pos (spheres ! hid))) (Fin (- 1))
            else Vec_normalize (ray_o r + Vec_mul (ray_d r) t - pos (spheres ! hid)))
           = hit_n r t (spheres ! hid)"
    unfolding hit_n_def hit_x_def hit_o_def Let_def ..
  have s: "BRDF_sample \<xi> (Suc k1) (brdf (spheres ! hid)) (hit_n r t (spheres ! hid))
              (Vec_normalize (Vec0 - ray_d r)) = (i0, pdf, k2)"
    using smp unfolding hit_o_def .
  show ?thesis
    unfolding receivedRadiance.simps hit Let_def prod.case n d s
    by (simp add: hit_x_def hit_o_def split: option.splits)
qed

declare receivedRadiance.simps [simp del]

text \<open>A NaN stays: the product and the sum with a NaN are NaN.\<close>

lemma times_NaN [simp]: "a * NaN = NaN"
  by (cases a) simp_all

lemma plus_NaN [simp]: "a + NaN = NaN"
  by (cases a) simp_all

lemma Vec_mul_NaN [simp]: "Vec_mul v NaN = Vec NaN NaN NaN"
  by (cases v) simp

lemma Vec_plus_NaN [simp]: "v + Vec NaN NaN NaN = Vec NaN NaN NaN"
  by (cases v) simp

lemma PI_neq: "PI \<noteq> 0"
  by (simp add: PI_def)

text \<open>
  The direct radiance takes two draws on a diffuse surface and none on a specular one.
  When every draw from \<open>k\<close> on is at least \<open>0.9\<close>, a call at depth \<open>5\<close> or more
  returns without a nested call.
\<close>

lemma directRadiance_count:
  "snd (directRadiance \<xi> k obj r n) = (if isSpecular (brdf obj) then k else Suc (Suc k))"
  by (simp add: directRadiance_def luminaireSample_def Let_def)

lemma hit_direct_count:
  "snd (hit_direct \<xi> k r t obj) = (if isSpecular (brdf obj) then k else Suc (Suc k))"
  by (simp add: hit_direct_def directRadiance_count)

lemma receivedRadiance_stops:
  assumes depth: "5 \<le> depth" and stop: "\<forall>j\<ge>k. 9 / 10 \<le> \<xi> j"
  shows "\<exists>v k'. receivedRadiance \<xi> (Suc fuel) k r depth flag = Some (v, k')"
proof -
  obtain hit t hid where i: "intersect r 0 = (hit, t, hid)"
    by (cases "intersect r 0") auto
  show ?thesis
  proof (cases hit)
    case False
    with i show ?thesis by (simp add: receivedRadiance_miss)
  next
    case True
    obtain direct k1 where d: "hit_direct \<xi> k r t (spheres ! hid) = (direct, k1)"
      by (cases "hit_direct \<xi> k r t (spheres ! hid)") auto
    obtain i0 pdf k2 where
      s: "BRDF_sample \<xi> (Suc k1) (brdf (spheres ! hid)) (hit_n r t (spheres ! hid)) (hit_o r)
            = (i0, pdf, k2)"
      by (cases "BRDF_sample \<xi> (Suc k1) (brdf (spheres ! hid)) (hit_n r t (spheres ! hid)) (hit_o r)")
        auto
    from hit_direct_count [of \<xi> k r t "spheres ! hid"] d have "k \<le> k1"
      by (simp split: if_splits)
    with stop have "\<not> \<xi> k1 < 9 / 10" by (simp add: not_less)
    moreover from i True have h: "intersect r 0 = (True, t, hid)" by simp
    ultimately show ?thesis
      unfolding receivedRadiance_hit [OF h d s] using depth by simp
  qed
qed



text \<open>
  A division by zero is an infinity or a NaN, and a product or a sum with such a number
  is one again: with a pdf of zero the weight and the value returned are not finite.
\<close>

lemma div_zero_not_finite: "\<not> finite_d (a / (Fin 0 * (if c then Fin 0.9 else Fin 1)))"
  by (cases a) simp_all

lemma times_not_finite:
  assumes "\<not> finite_d w"
  shows "\<not> finite_d (a * w)"
  using assms by (cases a; cases w) simp_all

lemma plus_not_finite:
  assumes "\<not> finite_d b"
  shows "\<not> finite_d (a + b)"
  using assms by (cases a; cases b) simp_all

lemma Vec_mul_not_finite:
  assumes "\<not> finite_d w"
  shows "\<not> finite_d (vx (Vec_mul v w)) \<and> \<not> finite_d (vy (Vec_mul v w)) \<and>
         \<not> finite_d (vz (Vec_mul v w))"
  using assms by (cases v) (simp add: times_not_finite)

lemma Vec_plus_not_finite:
  assumes "\<not> finite_d (vx b) \<and> \<not> finite_d (vy b) \<and> \<not> finite_d (vz b)"
  shows "\<not> finite_d (vx (a + b)) \<and> \<not> finite_d (vy (a + b)) \<and> \<not> finite_d (vz (a + b))"
  using assms by (cases a; cases b) (simp add: plus_not_finite)

lemma pdf_zero_not_finite:
  assumes hit: "intersect r 0 = (True, t, hid)"
      and dir: "hit_direct \<xi> k r t (spheres ! hid) = (direct, k1)"
      and cont: "Fin (\<xi> k1) < (if 5 \<le> depth then Fin 0.9 else Fin 1)"
      and smp: "BRDF_sample \<xi> (Suc k1) (brdf (spheres ! hid)) (hit_n r t (spheres ! hid)) (hit_o r)
                  = (i0, Fin 0, k2)"
      and rec: "receivedRadiance \<xi> fuel k2 (Ray (hit_x r t) (Vec_normalize i0)) (depth + 1)
                  (isSpecular (brdf (spheres ! hid))) = Some (rad', k3)"
  shows "\<not> isSpecular (brdf (spheres ! hid)) \<and>
         \<not> finite_d (Vec_dot (hit_n r t (spheres ! hid)) (Vec_normalize i0) /
                       (Fin 0 * (if 5 \<le> depth then Fin 0.9 else Fin 1))) \<and>
         (\<exists>v. receivedRadiance \<xi> (Suc fuel) k r depth flag = Some (v, k3) \<and>
              \<not> finite_d (vx v) \<and> \<not> finite_d (vy v) \<and> \<not> finite_d (vz v))"
proof -
  define w where "w = Vec_dot (hit_n r t (spheres ! hid)) (Vec_normalize i0) /
                       (Fin 0 * (if 5 \<le> depth then Fin 0.9 else Fin 1))"
  define ind where "ind = Vec_mul (Vec_mult rad' (BRDF_eval (brdf (spheres ! hid))
                                     (hit_n r t (spheres ! hid)) (hit_o r) (Vec_normalize i0))) w"
  have 1: "\<not> isSpecular (brdf (spheres ! hid))"
    using smp by (cases "brdf (spheres ! hid)") auto
  have w: "\<not> finite_d w" unfolding w_def by (rule div_zero_not_finite)
  then have ind: "\<not> finite_d (vx ind) \<and> \<not> finite_d (vy ind) \<and> \<not> finite_d (vz ind)"
    unfolding ind_def by (rule Vec_mul_not_finite)
  then have tot: "\<not> finite_d (vx (direct + ind)) \<and> \<not> finite_d (vy (direct + ind)) \<and>
      \<not> finite_d (vz (direct + ind))"
    by (rule Vec_plus_not_finite)
  then have tot': "\<not> finite_d (vx (emi (spheres ! hid) + (direct + ind))) \<and>
      \<not> finite_d (vy (emi (spheres ! hid) + (direct + ind))) \<and>
      \<not> finite_d (vz (emi (spheres ! hid) + (direct + ind)))"
    by (rule Vec_plus_not_finite)
  have "receivedRadiance \<xi> (Suc fuel) k r depth flag =
          Some (if flag then emi (spheres ! hid) + (direct + ind) else direct + ind, k3)"
    unfolding receivedRadiance_hit [OF hit dir smp] ind_def w_def using cont rec by simp
  with tot tot' have "\<exists>v. receivedRadiance \<xi> (Suc fuel) k r depth flag = Some (v, k3) \<and>
              \<not> finite_d (vx v) \<and> \<not> finite_d (vy v) \<and> \<not> finite_d (vz v)"
    by (cases flag) simp_all
  with 1 w show ?thesis unfolding w_def by blast
qed

text \<open>
  The floor ray: the point hit, the outgoing direction and the normal, and the diffuse
  sample for two draws of \<open>0\<close>.
\<close>

lemma floorRay_x: "hit_x floorRay (Fin 52) = Vec (Fin 50) (Fin 0) (Fin 81.6)"
  by (simp add: hit_x_def floorRay_def)

lemma floorRay_o: "hit_o floorRay = Vec (Fin 0) (Fin 1) (Fin 0)"
  by (simp add: hit_o_def floorRay_def Vec0_def)

lemma floorRay_n: "hit_n floorRay (Fin 52) (spheres ! 3) = Vec (Fin 0) (Fin 1) (Fin 0)"
  by (simp add: hit_n_def floorRay_x floorRay_o scene_defs Let_def)

lemma floor_sample:
  "BRDF_sample xi_tangent 3 (brdf (spheres ! 3)) (Vec (Fin 0) (Fin 1) (Fin 0))
     (Vec (Fin 0) (Fin 1) (Fin 0)) = (Vec (Fin 0) (Fin 0) (Fin 1), Fin 0, 5)"
  by (simp add: scene_defs uniformRandomPSA_def createLocalCoord_def xi_tangent_def Let_def
      eval_nat_numeral PI_neq)

text \<open>
  C3 (as amended).  The estimator has no special case for a pdf of zero.  When the call
  continues and \<^verbatim>\<open>sample\<close> returns a pdf of exactly \<open>0\<close> (the material is then the
  diffuse one), the weight \<open>(n\<cdot>i) / (pdf \<cdot> p)\<close> is a division by zero, which is an
  infinity or a NaN whatever \<open>n\<cdot>i\<close> is, and once the recursive call has returned no
  component of the call's value is a finite number.
\<close>

theorem receivedRadiance_pdf_zero:
  assumes hit: "intersect r 0 = (True, t, hid)"
      and dir: "hit_direct \<xi> k r t (spheres ! hid) = (direct, k1)"
      and cont: "Fin (\<xi> k1) < (if 5 \<le> depth then Fin 0.9 else Fin 1)"
      and smp: "BRDF_sample \<xi> (Suc k1) (brdf (spheres ! hid)) (hit_n r t (spheres ! hid)) (hit_o r)
                  = (i0, Fin 0, k2)"
      and rec: "receivedRadiance \<xi> fuel k2 (Ray (hit_x r t) (Vec_normalize i0)) (depth + 1)
                  (isSpecular (brdf (spheres ! hid))) = Some (rad', k3)"
  shows "\<not> isSpecular (brdf (spheres ! hid)) \<and>
         \<not> finite_d (Vec_dot (hit_n r t (spheres ! hid)) (Vec_normalize i0) /
                       (Fin 0 * (if 5 \<le> depth then Fin 0.9 else Fin 1))) \<and>
         (\<exists>v. receivedRadiance \<xi> (Suc fuel) k r depth flag = Some (v, k3) \<and>
              \<not> finite_d (vx v) \<and> \<not> finite_d (vy v) \<and> \<not> finite_d (vz v))"
  using assms by (rule pdf_zero_not_finite)

lemma floor_tangent_run:
  "\<exists>direct rad' k3.
     hit_direct xi_tangent 0 floorRay (Fin 52) (spheres ! 3) = (direct, 2) \<and>
     BRDF_sample xi_tangent (Suc 2) (brdf (spheres ! 3))
       (hit_n floorRay (Fin 52) (spheres ! 3)) (hit_o floorRay) =
       (Vec (Fin 0) (Fin 0) (Fin 1), Fin 0, 5) \<and>
     receivedRadiance xi_tangent (Suc 0) 5
       (Ray (hit_x floorRay (Fin 52)) (Vec_normalize (Vec (Fin 0) (Fin 0) (Fin 1)))) (4 + 1)
       (isSpecular (brdf (spheres ! 3))) = Some (rad', k3)"
proof -
  obtain direct k1 where d: "hit_direct xi_tangent 0 floorRay (Fin 52) (spheres ! 3) = (direct, k1)"
    by (cases "hit_direct xi_tangent 0 floorRay (Fin 52) (spheres ! 3)") auto
  from hit_direct_count [of xi_tangent 0 floorRay "Fin 52" "spheres ! 3"] d
  have k1: "k1 = 2" by (simp add: scene_defs)
  have s: "BRDF_sample xi_tangent (Suc 2) (brdf (spheres ! 3))
             (hit_n floorRay (Fin 52) (spheres ! 3)) (hit_o floorRay) =
           (Vec (Fin 0) (Fin 0) (Fin 1), Fin 0, 5)"
    unfolding floorRay_n floorRay_o using floor_sample by (simp add: numeral_3_eq_3)
  have "\<forall>j\<ge>5. 9 / 10 \<le> xi_tangent j" by (simp add: xi_tangent_def)
  from receivedRadiance_stops [OF _ this, of 5 0
      "Ray (hit_x floorRay (Fin 52)) (Vec_normalize (Vec (Fin 0) (Fin 0) (Fin 1)))"
      "isSpecular (brdf (spheres ! 3))"]
  obtain rad' k3 where
    "receivedRadiance xi_tangent (Suc 0) 5
          (Ray (hit_x floorRay (Fin 52)) (Vec_normalize (Vec (Fin 0) (Fin 0) (Fin 1)))) (4 + 1)
          (isSpecular (brdf (spheres ! 3))) = Some (rad', k3)"
    by auto
  with d k1 s show ?thesis by blast
qed

text \<open>
  The floor ray at depth \<open>4\<close> with five draws of \<open>0\<close>: the sampled direction
  \<open>(0, 0, 1)\<close> lies in the tangent plane, the weight is \<open>0 / 0\<close> and the value is NaN
  in every component, with or without the emission.
\<close>

lemma floor_tangent_value:
  "map_option fst (receivedRadiance xi_tangent (Suc (Suc 0)) 0 floorRay 4 flag) =
     Some (Vec NaN NaN NaN)"
proof -
  from floor_tangent_run obtain direct rad' k3 where
    d: "hit_direct xi_tangent 0 floorRay (Fin 52) (spheres ! 3) = (direct, 2)" and
    s: "BRDF_sample xi_tangent (Suc 2) (brdf (spheres ! 3))
          (hit_n floorRay (Fin 52) (spheres ! 3)) (hit_o floorRay) =
          (Vec (Fin 0) (Fin 0) (Fin 1), Fin 0, 5)" and
    r: "receivedRadiance xi_tangent (Suc 0) 5
          (Ray (hit_x floorRay (Fin 52)) (Vec_normalize (Vec (Fin 0) (Fin 0) (Fin 1)))) (4 + 1)
          (isSpecular (brdf (spheres ! 3))) = Some (rad', k3)"
    by blast
  have w: "Vec_dot (hit_n floorRay (Fin 52) (spheres ! 3))
      (Vec_normalize (Vec (Fin 0) (Fin 0) (Fin 1))) / (Fin 0 * Fin 1) = NaN"
    by (simp add: floorRay_n)
  show ?thesis
    unfolding receivedRadiance_hit [OF floorRay_intersect d s]
    using r w by (simp add: xi_tangent_def)
qed

theorem receivedRadiance_pdf_zero_witness:
  "intersect floorRay 0 = (True, Fin 52, 3) \<and>
   Fin (xi_tangent 2) < (if 5 \<le> (4::int) then Fin 0.9 else Fin 1) \<and>
   BRDF_sample xi_tangent (Suc 2) (brdf (spheres ! 3))
     (hit_n floorRay (Fin 52) (spheres ! 3)) (hit_o floorRay) =
     (Vec (Fin 0) (Fin 0) (Fin 1), Fin 0, 5) \<and>
   receivedRadiance xi_tangent (Suc 0) 5
     (Ray (hit_x floorRay (Fin 52)) (Vec_normalize (Vec (Fin 0) (Fin 0) (Fin 1)))) (4 + 1)
     (isSpecular (brdf (spheres ! 3))) \<noteq> None \<and>
   \<not> isSpecular (brdf (spheres ! 3)) \<and>
   map_option fst (receivedRadiance xi_tangent (Suc (Suc 0)) 0 floorRay 4 False) =
     Some (Vec NaN NaN NaN) \<and>
   \<not> finite_d NaN"
proof -
  from floor_tangent_run obtain direct rad' k3 where
    d: "hit_direct xi_tangent 0 floorRay (Fin 52) (spheres ! 3) = (direct, 2)" and
    s: "BRDF_sample xi_tangent (Suc 2) (brdf (spheres ! 3))
          (hit_n floorRay (Fin 52) (spheres ! 3)) (hit_o floorRay) =
          (Vec (Fin 0) (Fin 0) (Fin 1), Fin 0, 5)" and
    r: "receivedRadiance xi_tangent (Suc 0) 5
          (Ray (hit_x floorRay (Fin 52)) (Vec_normalize (Vec (Fin 0) (Fin 0) (Fin 1)))) (4 + 1)
          (isSpecular (brdf (spheres ! 3))) = Some (rad', k3)"
    by blast
  have c: "Fin (xi_tangent 2) < (if 5 \<le> (4::int) then Fin 0.9 else Fin 1)"
    by (simp add: xi_tangent_def)
  from receivedRadiance_pdf_zero [OF floorRay_intersect d c s r, of False]
  show ?thesis using c s r floor_tangent_value [of False] by (simp add: floorRay_intersect)
qed

lemma isVisibile_cases: "isVisibile x y = Fin 1 \<or> isVisibile x y = Fin 0"
  by (simp add: isVisibile_def Let_def split: prod.splits)

lemma floor_light:
  "luminaireSample xi_tangent 0 (spheres ! 7) =
     (Vec (Fin 50) (Fin 70) (Fin 76.6), Vec (Fin 0) (Fin 0) (Fin (- 1)), Fin (1 / (100 * PI)), 2)"
  using PI_neq
  by (simp add: luminaireSample_def scene_defs xi_tangent_def Let_def)

lemma floor_direct_finite:
  "finite_Vec (fst (hit_direct xi_tangent 0 floorRay (Fin 52) (spheres ! 3)))"
proof -
  have b: "brdf (spheres ! 3) = DiffuseBRDF (Vec (Fin 0.75) (Fin 0.75) (Fin 0.75))"
    and e: "emi (spheres ! 7) = Vec (Fin 50) (Fin 50) (Fin 50)"
    by (simp_all add: scene_defs)
  from isVisibile_cases [of "Vec (Fin 50) (Fin 0) (Fin 81.6)" "Vec (Fin 50) (Fin 70) (Fin 76.6)"]
  show ?thesis
    unfolding hit_direct_def directRadiance_def floorRay_x floorRay_o floorRay_n
      floor_light Let_def prod.case Ray.sel b e
    using PI_neq by auto
qed

text \<open>
  The floor ray at depth \<open>4\<close> with five draws of \<open>0\<close>: the emission of the floor and
  the direct radiance are finite, the call continues, the diffuse sampler returns the
  direction \<open>(0, 0, 1)\<close> in the tangent plane with pdf \<open>0\<close>, the weight is NaN, and the
  value returned is NaN in every component: the indirect term did not contribute zero.
\<close>

theorem pdf_zero_counterexample:
  "finite_Vec (emi (spheres ! 3)) \<and>
   finite_Vec (fst (hit_direct xi_tangent 0 floorRay (Fin 52) (spheres ! 3))) \<and>
   fst (snd (BRDF_sample xi_tangent 3 (brdf (spheres ! 3)) (hit_n floorRay (Fin 52) (spheres ! 3))
               (hit_o floorRay))) = Fin 0 \<and>
   Vec_dot (hit_n floorRay (Fin 52) (spheres ! 3)) (Vec_normalize (Vec (Fin 0) (Fin 0) (Fin 1))) /
     (Fin 0 * Fin 1) = NaN \<and>
   map_option fst (receivedRadiance xi_tangent 2 0 floorRay 4 True) = Some (Vec NaN NaN NaN)"
proof -
  have s: "BRDF_sample xi_tangent (Suc 2) (brdf (spheres ! 3))
          (hit_n floorRay (Fin 52) (spheres ! 3)) (hit_o floorRay) =
          (Vec (Fin 0) (Fin 0) (Fin 1), Fin 0, 5)"
    unfolding floorRay_n floorRay_o using floor_sample by (simp add: numeral_3_eq_3)
  have "map_option fst (receivedRadiance xi_tangent 2 0 floorRay 4 True) =
          Some (Vec NaN NaN NaN)"
    using floor_tangent_value [of True] by (simp add: numeral_2_eq_2)
  moreover have "finite_Vec (emi (spheres ! 3))" by (simp add: scene_defs)
  moreover have "Vec_dot (hit_n floorRay (Fin 52) (spheres ! 3))
      (Vec_normalize (Vec (Fin 0) (Fin 0) (Fin 1))) / (Fin 0 * Fin 1) = NaN"
    by (simp add: floorRay_n)
  ultimately show ?thesis using s floor_direct_finite by (simp add: numeral_3_eq_3)
qed




section \<open>Non-negativity of the estimate\<close>

text \<open>
  The ray from the center of sphere \<open>5\<close> meets it at \<open>ball_x\<close>, at the distance
  \<open>16.5\<close>; the light sample \<open>light_y\<close> is at the distance \<open>931 / 15\<close> from there and
  nothing lies between them.
\<close>

lemma sqrt_1089_4 [simp]: "sqrt (1089 / 4) = 33 / 2"
  by (rule real_sqrt_unique) (simp_all add: power2_eq_square)

lemma sqrt_784_2809 [simp]: "sqrt (784 / 2809) = 28 / 53"
  by (rule real_sqrt_unique) (simp_all add: power2_eq_square)

lemma sqrt_866761_225 [simp]: "sqrt (866761 / 225) = 931 / 15"
  by (rule real_sqrt_unique) (simp_all add: power2_eq_square)

lemma sqrt_light_det [simp]: "sqrt (3422500 / 70207641) = 1850 / 8379"
  by (rule real_sqrt_unique) (simp_all add: power2_eq_square)







































end
